theory Spec2Isabelle
  imports Complex_Main "HOL-Library.Multiset" "HOL-Library.List_Lexorder" "HOL-Library.Char_ord"
begin

section \<open>Data model\<close>

text \<open>
  The TypeScript interface \<^verbatim>\<open>Repository\<close> (github-api.ts). Counts are the non-negative
  integers the hosting API reports; \<^verbatim>\<open>updated_at\<close> and \<^verbatim>\<open>created_at\<close> are ISO-8601
  strings in the source and are represented by the instant they denote, in milliseconds
  since the epoch (what \<^verbatim>\<open>new Date(s).getTime()\<close> returns for them; a string that is not
  a date, for which it returns \<^verbatim>\<open>NaN\<close>, is not represented). A \<^verbatim>\<open>null\<close> or absent field is
  \<open>None\<close>. The field \<^verbatim>\<open>id\<close> is called \<open>repo_id\<close>, and a quality score is an integer, as
  the scoring functions return.
\<close>

record owner =
  login :: string
  avatar_url :: string

record repository =
  repo_id :: int
  name :: string
  full_name :: string
  description :: "string option"
  html_url :: string
  language :: "string option"
  stargazers_count :: nat
  forks_count :: nat
  open_issues_count :: nat
  updated_at :: int
  created_at :: int
  topics :: "string list"
  owner :: owner
  qualityScore :: "int option"

text \<open>
  A raw item of the hosting API's search response (\<^verbatim>\<open>any\<close> in the source). The fields
  the source reads are listed; \<^verbatim>\<open>topics\<close>, \<^verbatim>\<open>owner\<close>, \<^verbatim>\<open>license\<close> and a
  \<^verbatim>\<open>qualityScore\<close> property may be absent.
\<close>

record api_item =
  item_id :: int
  item_name :: string
  item_full_name :: string
  item_description :: "string option"
  item_html_url :: string
  item_language :: "string option"
  item_stargazers_count :: nat
  item_forks_count :: nat
  item_open_issues_count :: nat
  item_updated_at :: int
  item_created_at :: int
  item_topics :: "string list option"
  item_owner :: "owner option"
  item_pushed_at :: "int option"
  item_license_name :: "string option"
  item_qualityScore :: "int option"

text \<open>
  \<^verbatim>\<open>SearchFilters\<close> and its extension \<^verbatim>\<open>EnhancedSearchFilters\<close>; an unset field is \<open>None\<close>.
  The star bounds are integers.
\<close>

datatype sort_key = SortStars | SortUpdated | SortCreated | SortName
datatype sort_order = Asc | Desc
datatype vulnerability_level = VulnNone | VulnLow | VulnMedium | VulnHigh
datatype size_bucket = Small | MediumSize | Large
datatype activity_bucket = Active | Maintained | Stale
datatype quality_bucket = Excellent | Good | Fair | Poor
datatype team_size = Solo | SmallTeam | MediumTeam | LargeTeam

record search_filters =
  f_language :: "string option"
  f_minStars :: "int option"
  f_maxStars :: "int option"
  f_topics :: "string list option"
  f_hasIssues :: "bool option"
  f_hasWiki :: "bool option"
  f_hasPages :: "bool option"
  f_archived :: "bool option"
  f_fork :: "bool option"
  f_sortBy :: "sort_key option"
  f_order :: "sort_order option"

record enhanced_search_filters = search_filters +
  f_vulnerabilities :: "vulnerability_level option"
  f_license :: "string list option"
  f_size :: "size_bucket option"
  f_activity :: "activity_bucket option"
  f_codeQuality :: "quality_bucket option"
  f_teamSize :: "team_size option"

text \<open>The default argument \<^verbatim>\<open>filters = {}\<close>: every field unset.\<close>

definition emptyFilters :: enhanced_search_filters where
  "emptyFilters =
     \<lparr>f_language = None, f_minStars = None, f_maxStars = None, f_topics = None,
      f_hasIssues = None, f_hasWiki = None, f_hasPages = None, f_archived = None,
      f_fork = None, f_sortBy = None, f_order = None,
      f_vulnerabilities = None, f_license = None, f_size = None, f_activity = None,
      f_codeQuality = None, f_teamSize = None\<rparr>"

section \<open>Strings\<close>

text \<open>
  A \<open>string\<close> is a sequence of bytes: ASCII text as it is, anything else in UTF-8.

  Decimal rendering of an integer, as a template literal renders an integral number.
\<close>

definition digit_char :: "nat \<Rightarrow> char" where
  "digit_char d =
     (if d = 0 then CHR ''0'' else if d = 1 then CHR ''1'' else if d = 2 then CHR ''2''
      else if d = 3 then CHR ''3'' else if d = 4 then CHR ''4'' else if d = 5 then CHR ''5''
      else if d = 6 then CHR ''6'' else if d = 7 then CHR ''7'' else if d = 8 then CHR ''8''
      else CHR ''9'')"

fun showNat :: "nat \<Rightarrow> string" where
  "showNat n = (if n < 10 then [digit_char n] else showNat (n div 10) @ [digit_char (n mod 10)])"

declare showNat.simps [simp del]

definition showInt :: "int \<Rightarrow> string" where
  "showInt i = (if i < 0 then CHR ''-'' # showNat (nat (- i)) else showNat (nat i))"

text \<open>\<^verbatim>\<open>Array.prototype.join\<close>.\<close>

fun join :: "string \<Rightarrow> string list \<Rightarrow> string" where
  "join sep [] = []"
| "join sep [x] = x"
| "join sep (x # y # ys) = x @ sep @ join sep (y # ys)"

text \<open>\<^verbatim>\<open>String.prototype.includes\<close>: \<open>t\<close> occurs in \<open>s\<close> as a contiguous substring.\<close>

fun startsWith :: "string \<Rightarrow> string \<Rightarrow> bool" where
  "startsWith s [] = True"
| "startsWith [] (c # t) = False"
| "startsWith (d # s) (c # t) = (d = c \<and> startsWith s t)"

fun str_includes :: "string \<Rightarrow> string \<Rightarrow> bool" where
  "str_includes [] t = (t = [])"
| "str_includes (c # s) t = (startsWith (c # s) t \<or> str_includes s t)"

text \<open>\<^verbatim>\<open>String.prototype.toLowerCase\<close> on the ASCII letters.\<close>

definition lower_char :: "char \<Rightarrow> char" where
  "lower_char c =
     (let n = (of_char c :: nat) in if 65 \<le> n \<and> n \<le> 90 then char_of (n + 32) else c)"

definition toLowerCase :: "string \<Rightarrow> string" where
  "toLowerCase s = map lower_char s"

section \<open>Query builders\<close>

text \<open>
  \<^verbatim>\<open>GitHubSearchEngine.buildSmartQuery\<close> (part_001, lines 97-145). The method reads the
  engine's field \<^verbatim>\<open>exclusionList\<close>; it is the first argument. \<^verbatim>\<open>if (filters.language)\<close>
  is false for the empty string as well as for an unset field; \<^verbatim>\<open>filter(Boolean)\<close> drops
  the empty strings.
\<close>

definition pushIf :: "bool \<Rightarrow> string list \<Rightarrow> string list \<Rightarrow> string list" where
  "pushIf c new parts = (if c then parts @ new else parts)"

definition buildSmartQuery ::
  "string list \<Rightarrow> string \<Rightarrow> 'a search_filters_scheme \<Rightarrow> string" where
  "buildSmartQuery exclusionList query filters =
     (let parts = [query];
          parts = parts @ map (\<lambda>user. ''-user:'' @ user) exclusionList;
          parts = (case f_language filters of
                     Some l \<Rightarrow> pushIf (l \<noteq> []) [''language:'' @ l] parts
                   | None \<Rightarrow> parts);
          parts = (case f_minStars filters of
                     Some n \<Rightarrow> parts @ [''stars:>='' @ showInt n]
                   | None \<Rightarrow> parts);
          parts = (case f_maxStars filters of
                     Some n \<Rightarrow> parts @ [''stars:<='' @ showInt n]
                   | None \<Rightarrow> parts);
          parts = (case f_topics filters of
                     Some ts \<Rightarrow> pushIf (length ts > 0) (map (\<lambda>topic. ''topic:'' @ topic) ts) parts
                   | None \<Rightarrow> parts);
          parts = (case f_hasIssues filters of
                     Some b \<Rightarrow> parts @ [if b then ''has:issues'' else ''-has:issues'']
                   | None \<Rightarrow> parts);
          parts = (case f_hasWiki filters of
                     Some b \<Rightarrow> parts @ [if b then ''has:wiki'' else ''-has:wiki'']
                   | None \<Rightarrow> parts);
          parts = (case f_hasPages filters of
                     Some b \<Rightarrow> parts @ [if b then ''has:pages'' else ''-has:pages'']
                   | None \<Rightarrow> parts);
          parts = (case f_archived filters of
                     Some b \<Rightarrow> parts @ [if b then ''archived:true'' else ''archived:false'']
                   | None \<Rightarrow> parts);
          parts = (case f_fork filters of
                     Some b \<Rightarrow> parts @ [if b then ''fork:true'' else ''fork:false'']
                   | None \<Rightarrow> parts)
      in join '' '' (filter (\<lambda>p. p \<noteq> []) parts))"

text \<open>
  \<^verbatim>\<open>new Date(t).toISOString().split('T')[0]\<close>: the UTC calendar date of the instant \<open>t\<close>
  (milliseconds since the epoch) in the proleptic Gregorian calendar, as
  \<^verbatim>\<open>YYYY-MM-DD\<close> for the years 0 to 9999 and with a sign and six digits otherwise, which is
  what ECMAScript prescribes. The day number is \<open>\<lfloor>t / 86400000\<rfloor>\<close>; the conversion to
  year, month and day counts from 0000-03-01 in 400-year eras. A clock reading, and a
  reading less a year, is a valid time value, so \<^verbatim>\<open>toISOString\<close> does not throw.
\<close>

definition msPerDay :: int where
  "msPerDay = 24 * 60 * 60 * 1000"

definition civil_from_days :: "int \<Rightarrow> int \<times> int \<times> int" where
  "civil_from_days z0 =
     (let z = z0 + 719468;
          era = z div 146097;
          doe = z - era * 146097;
          yoe = (doe - doe div 1460 + doe div 36524 - doe div 146096) div 365;
          doy = doe - (365 * yoe + yoe div 4 - yoe div 100);
          mp = (5 * doy + 2) div 153;
          d = doy - (153 * mp + 2) div 5 + 1;
          m = (if mp < 10 then mp + 3 else mp - 9);
          y = yoe + era * 400 + (if m \<le> 2 then 1 else 0)
      in (y, m, d))"

definition padNat :: "nat \<Rightarrow> nat \<Rightarrow> string" where
  "padNat w n = replicate (w - length (showNat n)) CHR ''0'' @ showNat n"

definition isoYear :: "int \<Rightarrow> string" where
  "isoYear y =
     (if 0 \<le> y \<and> y \<le> 9999 then padNat 4 (nat y)
      else if y < 0 then CHR ''-'' # padNat 6 (nat (- y))
      else CHR ''+'' # padNat 6 (nat y))"

definition isoDate :: "int \<Rightarrow> string" where
  "isoDate t =
     (case civil_from_days (t div msPerDay) of
        (y, m, d) \<Rightarrow> isoYear y @ ''-'' @ padNat 2 (nat m) @ ''-'' @ padNat 2 (nat d))"

text \<open>
  \<^verbatim>\<open>EnhancedGitHubAPI.buildEnhancedQuery\<close> (enhanced-github-api.ts, lines 262-300). The
  first argument is the value of \<^verbatim>\<open>new Date()\<close> read inside the method, in milliseconds.
  The three thresholds are computed as in the source, whichever bucket is selected.
\<close>

definition sizeRanges :: "size_bucket \<Rightarrow> string" where
  "sizeRanges b = (case b of Small \<Rightarrow> ''size:<1000'' | MediumSize \<Rightarrow> ''size:1000..10000''
                   | Large \<Rightarrow> ''size:>10000'')"

definition thresholds :: "int \<Rightarrow> activity_bucket \<Rightarrow> string" where
  "thresholds now b =
     (case b of
        Active \<Rightarrow> isoDate (now - 30 * 24 * 60 * 60 * 1000)
      | Maintained \<Rightarrow> isoDate (now - 90 * 24 * 60 * 60 * 1000)
      | Stale \<Rightarrow> ''<'' @ isoDate (now - 365 * 24 * 60 * 60 * 1000))"

definition buildEnhancedQuery ::
  "int \<Rightarrow> string \<Rightarrow> 'a enhanced_search_filters_scheme \<Rightarrow> string" where
  "buildEnhancedQuery now query filters =
     (let parts = [query];
          parts = (case f_license filters of
                     Some ls \<Rightarrow> pushIf (length ls > 0) (map (\<lambda>license. ''license:'' @ license) ls) parts
                   | None \<Rightarrow> parts);
          parts = (case f_size filters of
                     Some b \<Rightarrow> parts @ [sizeRanges b]
                   | None \<Rightarrow> parts);
          parts = (case f_activity filters of
                     Some a \<Rightarrow>
                       (if a \<noteq> Stale then parts @ [''pushed:>'' @ thresholds now a]
                        else parts @ [''pushed:'' @ thresholds now Stale])
                   | None \<Rightarrow> parts);
          parts = parts @ [''-user:Gzeu'', ''-user:octocat'', ''NOT tutorial'', ''NOT example'']
      in join '' '' parts)"

section \<open>Numbers\<close>

text \<open>
  A JavaScript number is an IEEE-754 double. A finite double is represented by the real
  number it denotes, and an arithmetic operation returns the exact result rounded to the
  nearest double, ties to the even significand: for \<open>x\<close> between \<open>2 ^ e\<close> and \<open>2 ^ (e + 1)\<close>
  in absolute value (\<open>e\<close> is \<open>binade x\<close>) the doubles are the multiples of \<open>2 ^ (e - 52)\<close>.
  Overflow to infinity (from \<open>2 ^ 1024\<close>), the subnormal range (below \<open>2 ^ (- 1022)\<close>) and
  \<^verbatim>\<open>NaN\<close> are not represented; the counts a response carries and the time values of dates
  are far from them.
\<close>

definition roundHalfEven :: "real \<Rightarrow> int" where
  "roundHalfEven q =
     (let f = \<lfloor>q\<rfloor>
      in if q - of_int f < 1 / 2 then f
         else if q - of_int f > 1 / 2 then f + 1
         else if even f then f else f + 1)"

definition binade :: "real \<Rightarrow> int" where
  "binade x = \<lfloor>log 2 \<bar>x\<bar>\<rfloor>"

definition rnd :: "real \<Rightarrow> real" where
  "rnd x =
     (if x = 0 then 0
      else (let u = 2 powr (of_int (binade x) - 52)
            in of_int (roundHalfEven (x / u)) * u))"

text \<open>The operators \<^verbatim>\<open>+\<close>, \<^verbatim>\<open>-\<close>, \<^verbatim>\<open>*\<close> and \<^verbatim>\<open>/\<close> on doubles.\<close>

definition fadd :: "real \<Rightarrow> real \<Rightarrow> real" where
  "fadd x y = rnd (x + y)"

definition fsub :: "real \<Rightarrow> real \<Rightarrow> real" where
  "fsub x y = rnd (x - y)"

definition fmul :: "real \<Rightarrow> real \<Rightarrow> real" where
  "fmul x y = rnd (x * y)"

definition fdiv :: "real \<Rightarrow> real \<Rightarrow> real" where
  "fdiv x y = rnd (x / y)"

text \<open>A count as the response carries it: the double nearest to it.\<close>

definition toNumber :: "nat \<Rightarrow> real" where
  "toNumber n = rnd (real n)"

text \<open>
  \<^verbatim>\<open>Math.log10\<close> is left to the implementation by ECMAScript, within unspecified accuracy.
  The scoring functions take it as a parameter. For examples, the implementation that
  returns the double nearest to the logarithm:
\<close>

definition correctlyRoundedLog10 :: "real \<Rightarrow> real" where
  "correctlyRoundedLog10 x = rnd (log 10 x)"

text \<open>
  \<^verbatim>\<open>String.prototype.length\<close> counts UTF-16 code units. A \<open>string\<close> here is the UTF-8
  encoding of the JavaScript string (of well-formed text): a character below
  U+10000 is one unit and is encoded with a first byte below \<open>0xF0\<close>, a character from
  U+10000 is two units and is encoded with a first byte from \<open>0xF0\<close>, and the continuation
  bytes \<open>0x80\<close> to \<open>0xBF\<close> count nothing.
\<close>

definition utf16Units :: "char \<Rightarrow> nat" where
  "utf16Units c =
     (let b = (of_char c :: nat)
      in if b < 128 then 1 else if b < 192 then 0 else if b < 240 then 1 else 2)"

definition jsLength :: "string \<Rightarrow> nat" where
  "jsLength s = sum_list (map utf16Units s)"

section \<open>Quality scoring\<close>

text \<open>
  \<^verbatim>\<open>Math.min\<close> and \<^verbatim>\<open>Math.max\<close> are \<open>min\<close> and \<open>max\<close>, and \<^verbatim>\<open>Math.round\<close> (the nearest
  integer, halves upwards, computed exactly) is \<open>round\<close>, which is \<open>\<lfloor>x + 1/2\<rfloor>\<close>. The
  weights are the doubles nearest to the decimal literals.
\<close>

record quality_weights =
  w_stars :: real
  w_forks :: real
  w_issues :: real
  w_updates :: real
  w_documentation :: real

definition qualityWeights :: quality_weights where
  "qualityWeights =
     \<lparr>w_stars = rnd (3 / 10), w_forks = rnd (2 / 10), w_issues = rnd (1 / 10),
      w_updates = rnd (2 / 10), w_documentation = rnd (2 / 10)\<rparr>"

text \<open>
  \<^verbatim>\<open>GitHubSearchEngine.calculateQualityScore\<close> (part_001, lines 181-209); \<open>log10\<close> is
  \<^verbatim>\<open>Math.log10\<close> and \<open>now\<close> is the value of \<^verbatim>\<open>Date.now()\<close>.
  \<^verbatim>\<open>repo.description && repo.description.length > 50\<close> is falsy for \<^verbatim>\<open>null\<close>, and
  \<^verbatim>\<open>repo.topics && repo.topics.length > 0\<close> for an absent list.
\<close>

definition calculateQualityScore :: "(real \<Rightarrow> real) \<Rightarrow> int \<Rightarrow> api_item \<Rightarrow> int" where
  "calculateQualityScore log10 now repo =
     (let score = 0;
          starScore = min (fmul (log10 (fadd (toNumber (item_stargazers_count repo)) 1)) 10) 30;
          score = fadd score (fmul starScore (w_stars qualityWeights));
          forkScore = min (fmul (log10 (fadd (toNumber (item_forks_count repo)) 1)) 10) 20;
          score = fadd score (fmul forkScore (w_forks qualityWeights));
          daysSinceUpdate =
            fdiv (fsub (of_int now) (of_int (item_updated_at repo))) (1000 * 60 * 60 * 24);
          activityScore = max (fsub 20 (fdiv daysSinceUpdate 30)) 0;
          score = fadd score (fmul activityScore (w_updates qualityWeights));
          hasReadme = (case item_description repo of Some d \<Rightarrow> jsLength d > 50 | None \<Rightarrow> False);
          hasTopics = (case item_topics repo of Some ts \<Rightarrow> length ts > 0 | None \<Rightarrow> False);
          docScore = fadd (if hasReadme then 15 else 0) (if hasTopics then 5 else 0);
          score = fadd score (fmul docScore (w_documentation qualityWeights));
          issueRatio = fdiv (toNumber (item_open_issues_count repo))
                            (fadd (toNumber (item_stargazers_count repo)) 1);
          issueScore = max (fsub 10 (fmul issueRatio 50)) 0;
          score = fadd score (fmul issueScore (w_issues qualityWeights))
      in round (min score 100))"

text \<open>
  \<^verbatim>\<open>EnhancedGitHubAPI.calculateEnhancedQualityScore\<close> (enhanced-github-api.ts, lines
  347-375). \<open>languages\<close> are the keys of the language breakdown, \<open>contributors\<close> the
  contributor records (only their number is read).
\<close>

definition calculateEnhancedQualityScore ::
  "(real \<Rightarrow> real) \<Rightarrow> int \<Rightarrow> api_item \<Rightarrow> string list \<Rightarrow> 'c list \<Rightarrow> int" where
  "calculateEnhancedQualityScore log10 now repo languages contributors =
     (let score = 0;
          score = fadd score
                    (min (fmul (log10 (fadd (toNumber (item_stargazers_count repo)) 1)) 5) 25);
          daysSinceUpdate =
            fdiv (fsub (of_int now) (of_int (item_updated_at repo))) (1000 * 60 * 60 * 24);
          score = fadd score (max (fsub 20 (fdiv daysSinceUpdate 7)) 0);
          score = (case item_description repo of
                     Some d \<Rightarrow> if jsLength d > 20 then fadd score 10 else score
                   | None \<Rightarrow> score);
          score = (case item_topics repo of
                     Some ts \<Rightarrow> if length ts > 0 then fadd score 5 else score
                   | None \<Rightarrow> score);
          score = fadd score (min (fmul (toNumber (length contributors)) 2) 15);
          score = fadd score (min (fdiv (toNumber (item_forks_count repo)) 10) 5);
          languageCount = length languages;
          score = fadd score (min (fmul (toNumber languageCount) 2) 10);
          issueRatio = fdiv (toNumber (item_open_issues_count repo))
                            (fadd (toNumber (item_stargazers_count repo)) 1);
          score = fadd score (max (fsub 10 (fmul issueRatio 50)) 0)
      in round (min score 100))"

text \<open>
  The standard formula as the specification writes it (section 4.4), read over the real
  numbers: five sub-scores, their weights, the clamp and the rounding.
\<close>

definition specStandardScore :: "nat \<Rightarrow> nat \<Rightarrow> real \<Rightarrow> nat \<Rightarrow> bool \<Rightarrow> nat \<Rightarrow> int" where
  "specStandardScore stars forks daysSinceUpdate descriptionLength hasTopics openIssues =
     round (min (0.3 * min (log 10 (real stars + 1) * 10) 30
               + 0.2 * min (log 10 (real forks + 1) * 10) 20
               + 0.2 * max (20 - daysSinceUpdate / 30) 0
               + 0.2 * ((if descriptionLength > 50 then 15 else 0) + (if hasTopics then 5 else 0))
               + 0.1 * max (10 - (real openIssues / (real stars + 1)) * 50) 0)
             100)"

text \<open>
  The same formula with every number a double and every operation rounded, in the order
  the formula is written (sums from the left).
\<close>

definition specDoubleScore ::
  "(real \<Rightarrow> real) \<Rightarrow> nat \<Rightarrow> nat \<Rightarrow> real \<Rightarrow> nat \<Rightarrow> bool \<Rightarrow> nat \<Rightarrow> int" where
  "specDoubleScore log10 stars forks daysSinceUpdate descriptionLength hasTopics openIssues =
     round (min
       (fadd (fadd (fadd (fadd
          (fmul (rnd (3 / 10)) (min (fmul (log10 (fadd (toNumber stars) 1)) 10) 30))
          (fmul (rnd (2 / 10)) (min (fmul (log10 (fadd (toNumber forks) 1)) 10) 20)))
          (fmul (rnd (2 / 10)) (max (fsub 20 (fdiv daysSinceUpdate 30)) 0)))
          (fmul (rnd (2 / 10))
             (fadd (if descriptionLength > 50 then 15 else 0) (if hasTopics then 5 else 0))))
          (fmul (rnd (1 / 10))
             (max (fsub 10 (fmul (fdiv (toNumber openIssues) (fadd (toNumber stars) 1)) 50)) 0)))
       100)"

text \<open>The quantities the formula names, as the source takes them from a record.\<close>

definition descriptionLength :: "api_item \<Rightarrow> nat" where
  "descriptionLength repo = (case item_description repo of Some d \<Rightarrow> jsLength d | None \<Rightarrow> 0)"

definition hasTopics :: "api_item \<Rightarrow> bool" where
  "hasTopics repo = (case item_topics repo of Some ts \<Rightarrow> ts \<noteq> [] | None \<Rightarrow> False)"

definition daysSinceUpdate :: "int \<Rightarrow> api_item \<Rightarrow> real" where
  "daysSinceUpdate now repo = real_of_int (now - item_updated_at repo) / 86400000"

definition daysSinceUpdateDouble :: "int \<Rightarrow> api_item \<Rightarrow> real" where
  "daysSinceUpdateDouble now repo =
     fdiv (fsub (of_int now) (of_int (item_updated_at repo))) 86400000"

text \<open>A repository nobody has starred, forked or described, for examples.\<close>

definition bareItem :: api_item where
  "bareItem =
     \<lparr>item_id = 1, item_name = ''demo'', item_full_name = ''someone/demo'',
      item_description = None, item_html_url = ''https://github.com/someone/demo'',
      item_language = None, item_stargazers_count = 0, item_forks_count = 0,
      item_open_issues_count = 0, item_updated_at = 1762041600000,
      item_created_at = 1762041600000, item_topics = None,
      item_owner = Some \<lparr>login = ''someone'', avatar_url = ''https://avatars/someone''\<rparr>,
      item_pushed_at = None, item_license_name = None, item_qualityScore = None\<rparr>"

text \<open>
  A repository with 999 stars and one open issue, last updated 74 days and 6 hours before
  2025-11-02T00:00:00Z, for examples.
\<close>

definition boundaryItem :: api_item where
  "boundaryItem =
     bareItem\<lparr>item_stargazers_count := 999, item_open_issues_count := 1,
              item_updated_at := 1762041600000 - 6415200000\<rparr>"

section \<open>The engine's exclusion list (part_001, lines 46 and 270-288)\<close>

text \<open>
  JavaScript arrays are objects with identity: \<^verbatim>\<open>push\<close> changes an array in place, while
  \<^verbatim>\<open>filter\<close> and the spread \<^verbatim>\<open>[...xs]\<close> build a new array. The store maps references to
  array contents; \<open>nextFree\<close> is the next unused reference. The engine's field
  \<^verbatim>\<open>exclusionList\<close> holds a reference. \<open>held\<close> lists the references a caller has received
  from \<^verbatim>\<open>getExclusionList\<close>, in the order of the calls; they are all a caller can mutate,
  the field being private.
\<close>

record engine_world =
  cells :: "nat \<Rightarrow> string list option"
  nextFree :: nat
  exclusionList :: nat
  held :: "nat list"

definition deref :: "engine_world \<Rightarrow> nat \<Rightarrow> string list" where
  "deref w a = (case cells w a of Some xs \<Rightarrow> xs | None \<Rightarrow> [])"

definition alloc :: "string list \<Rightarrow> engine_world \<Rightarrow> nat \<times> engine_world" where
  "alloc xs w = (nextFree w, w\<lparr>cells := (cells w)(nextFree w \<mapsto> xs), nextFree := nextFree w + 1\<rparr>)"

text \<open>The constructor: \<^verbatim>\<open>exclusionList = ['Gzeu']\<close>.\<close>

definition new_engine :: engine_world where
  "new_engine = \<lparr>cells = Map.empty(0 \<mapsto> [''Gzeu'']), nextFree = 1, exclusionList = 0, held = []\<rparr>"

definition addToExclusionList :: "string \<Rightarrow> engine_world \<Rightarrow> engine_world" where
  "addToExclusionList username w =
     (let arr = deref w (exclusionList w)
      in if username \<notin> set arr
         then w\<lparr>cells := (cells w)(exclusionList w \<mapsto> arr @ [username])\<rparr>
         else w)"

definition removeFromExclusionList :: "string \<Rightarrow> engine_world \<Rightarrow> engine_world" where
  "removeFromExclusionList username w =
     (case alloc (filter (\<lambda>user. user \<noteq> username) (deref w (exclusionList w))) w of
        (a, w') \<Rightarrow> w'\<lparr>exclusionList := a\<rparr>)"

definition getExclusionList :: "engine_world \<Rightarrow> nat \<times> engine_world" where
  "getExclusionList w = alloc (deref w (exclusionList w)) w"

text \<open>\<^verbatim>\<open>buildSmartQuery\<close> as a method: it reads the array the field refers to.\<close>

definition engineBuildSmartQuery ::
  "engine_world \<Rightarrow> string \<Rightarrow> 'a search_filters_scheme \<Rightarrow> string" where
  "engineBuildSmartQuery w query filters = buildSmartQuery (deref w (exclusionList w)) query filters"

text \<open>
  What a caller can do to an engine: the three public methods, and any in-place change
  of an array it got from \<^verbatim>\<open>getExclusionList\<close> (\<open>MutateReturned i v\<close> leaves the \<open>i\<close>-th
  such array with contents \<open>v\<close>; it does nothing when fewer arrays were handed out).
\<close>

datatype engine_call =
    AddToExclusionList string
  | RemoveFromExclusionList string
  | GetExclusionList
  | MutateReturned nat "string list"

fun perform :: "engine_call \<Rightarrow> engine_world \<Rightarrow> engine_world" where
  "perform (AddToExclusionList u) w = addToExclusionList u w"
| "perform (RemoveFromExclusionList u) w = removeFromExclusionList u w"
| "perform GetExclusionList w = (case getExclusionList w of (a, w') \<Rightarrow> w'\<lparr>held := held w' @ [a]\<rparr>)"
| "perform (MutateReturned i v) w =
     (if i < length (held w) then w\<lparr>cells := (cells w)(held w ! i \<mapsto> v)\<rparr> else w)"

fun run :: "engine_call list \<Rightarrow> engine_world \<Rightarrow> engine_world" where
  "run [] w = w"
| "run (c # cs) w = run cs (perform c w)"

fun changesEngine :: "engine_call \<Rightarrow> bool" where
  "changesEngine (AddToExclusionList u) = True"
| "changesEngine (RemoveFromExclusionList u) = True"
| "changesEngine GetExclusionList = False"
| "changesEngine (MutateReturned i v) = False"

text \<open>The array the engine's field currently refers to.\<close>

definition currentList :: "engine_world \<Rightarrow> string list" where
  "currentList w = deref w (exclusionList w)"

text \<open>
  Well-formed worlds: the engine's array and the arrays handed out are allocated, no
  handed-out reference is the engine's own, and the engine's array has no duplicates.
\<close>

definition wf_world :: "engine_world \<Rightarrow> bool" where
  "wf_world w \<longleftrightarrow>
     exclusionList w < nextFree w
     \<and> (\<forall>a \<in> set (held w). a < nextFree w \<and> a \<noteq> exclusionList w)
     \<and> distinct (currentList w)"

text \<open>The effect of a call on the contents of the engine's list alone.\<close>

fun listStep :: "engine_call \<Rightarrow> string list \<Rightarrow> string list" where
  "listStep (AddToExclusionList u) xs = (if u \<in> set xs then xs else xs @ [u])"
| "listStep (RemoveFromExclusionList u) xs = filter (\<lambda>user. user \<noteq> u) xs"
| "listStep GetExclusionList xs = xs"
| "listStep (MutateReturned i v) xs = xs"

section \<open>Compatibility analysis (enhanced-github-api.ts, ai-code-analyzer.ts)\<close>

datatype severity = Low | Medium | High

record conflict =
  conflict_type :: string
  conflict_description :: string
  conflict_severity :: severity

record compatibility_report =
  compatibilityScore :: int
  conflicts :: "conflict list"
  suggestions :: "string list"

record license_compatibility =
  license_conflicts :: "conflict list"

text \<open>The placeholder helpers of \<^verbatim>\<open>EnhancedGitHubAPI\<close>, as they are in the source.\<close>

definition detectFrameworksDetailed :: "repository list \<Rightarrow> string list" where
  "detectFrameworksDetailed repos = []"

definition analyzeLicenseCompatibility :: "repository list \<Rightarrow> license_compatibility" where
  "analyzeLicenseCompatibility repos = \<lparr>license_conflicts = []\<rparr>"

definition analyzeDependencyCompatibility :: "repository list \<Rightarrow> conflict list" where
  "analyzeDependencyCompatibility repos = []"

definition calculateCompatibilityScore ::
  "string list \<Rightarrow> license_compatibility \<Rightarrow> conflict list \<Rightarrow> int" where
  "calculateCompatibilityScore frameworks licenses dependencies = 85"

definition generateCompatibilitySuggestions :: "string list \<Rightarrow> conflict list \<Rightarrow> string list" where
  "generateCompatibilitySuggestions frameworks dependencies = [''Projects appear to be compatible'']"

text \<open>
  \<^verbatim>\<open>analyzeProjectCompatibility\<close>: no statement of the body throws, so the promise always
  resolves and the model is a total function to the report.
\<close>

definition analyzeProjectCompatibility :: "repository list \<Rightarrow> compatibility_report" where
  "analyzeProjectCompatibility repos =
     (if length repos < 2 then
        \<lparr>compatibilityScore = 100,
         conflicts = [],
         suggestions = [''Add more repositories to analyze compatibility'']\<rparr>
      else
        (let frameworks = detectFrameworksDetailed repos;
             licenseCompatibility = analyzeLicenseCompatibility repos;
             dependencyConflicts = analyzeDependencyCompatibility repos;
             score = calculateCompatibilityScore frameworks licenseCompatibility dependencyConflicts
         in \<lparr>compatibilityScore = score,
             conflicts = dependencyConflicts @ license_conflicts licenseCompatibility,
             suggestions = generateCompatibilitySuggestions frameworks dependencyConflicts\<rparr>))"

text \<open>
  \<^verbatim>\<open>AICodeAnalyzer.getCompatibilityScore\<close>. The per-repository analysis calls the language
  model service; it is the parameter \<open>analyze\<close> (the source catches every failure of that
  call and substitutes a fallback record, so it always yields an analysis). The three
  sub-scores are the source's placeholders; JavaScript numbers are read as reals.
\<close>

definition calculateFrameworkCompatibility :: "string list \<Rightarrow> real" where
  "calculateFrameworkCompatibility frameworks = 85"

definition analyzeDependencyConflicts :: "'a list \<Rightarrow> real" where
  "analyzeDependencyConflicts analyses = 90"

definition analyzeArchitecturalPatterns :: "'a list \<Rightarrow> real" where
  "analyzeArchitecturalPatterns analyses = 80"

definition detectFrameworks :: "repository list \<Rightarrow> string list" where
  "detectFrameworks repos = map (\<lambda>repo. ''react'') repos"

definition getCompatibilityScore :: "(repository \<Rightarrow> 'a) \<Rightarrow> repository list \<Rightarrow> int" where
  "getCompatibilityScore analyze repos =
     (if length repos < 2 then 100
      else
        (let analyses = map analyze repos;
             frameworks = detectFrameworks repos;
             frameworkCompatibility = calculateFrameworkCompatibility frameworks;
             dependencyCompatibility = analyzeDependencyConflicts analyses;
             architecturalCompatibility = analyzeArchitecturalPatterns analyses
         in round (frameworkCompatibility * 0.4 + dependencyCompatibility * 0.4
                   + architecturalCompatibility * 0.2)))"

section \<open>Rate limiter (enhanced-github-api.ts, lines 515-558)\<close>

record rate_limit_state =
  lastRequestTime :: int
  requestCount :: int
  resetTime :: int
  remaining :: int

definition newRateLimitManager :: rate_limit_state where
  "newRateLimitManager = \<lparr>lastRequestTime = 0, requestCount = 0, resetTime = 0, remaining = 5000\<rparr>"

definition updateLimits :: "int \<Rightarrow> int \<Rightarrow> rate_limit_state \<Rightarrow> rate_limit_state" where
  "updateLimits remaining' resetTime' st = st\<lparr>remaining := remaining', resetTime := resetTime' * 1000\<rparr>"

text \<open>
  \<^verbatim>\<open>waitIfNeeded\<close> is an \<^verbatim>\<open>async\<close> method with two \<^verbatim>\<open>await\<close>s on timers. JavaScript runs it
  without interruption from its start, or from a timer's firing, to the next \<^verbatim>\<open>await\<close> that
  suspends or to its end; other calls run while it is suspended. A call in progress is a
  \<open>wait_task\<close>: not yet started; suspended in the quota wait (with the value \<^verbatim>\<open>now\<close> it
  read on entry and the time its timer is due); suspended in the spacing wait (with the
  time its timer is due); or completed (with the timestamp it stored in
  \<^verbatim>\<open>lastRequestTime\<close>).
\<close>

datatype wait_task =
    Start
  | QuotaWait int int
  | SpacingWait int
  | Completed int

text \<open>Lines 549-551: store the timestamp, count the request, decrement the quota.\<close>

definition recordRequest :: "int \<Rightarrow> rate_limit_state \<Rightarrow> rate_limit_state" where
  "recordRequest clock st =
     st\<lparr>lastRequestTime := clock, requestCount := requestCount st + 1, remaining := remaining st - 1\<rparr>"

text \<open>
  Lines 540-551, run at clock reading \<open>clock\<close> with the entry value \<open>now\<close>: either set the
  spacing timer and suspend, or finish.
\<close>

definition spacingPhase :: "int \<Rightarrow> int \<Rightarrow> rate_limit_state \<Rightarrow> wait_task \<times> rate_limit_state" where
  "spacingPhase now clock st =
     (let timeSinceLastRequest = now - lastRequestTime st;
          minInterval = 100
      in if timeSinceLastRequest < minInterval
         then (SpacingWait (clock + (minInterval - timeSinceLastRequest)), st)
         else (Completed clock, recordRequest clock st))"

text \<open>
  \<open>resume clock task st\<close> runs \<open>task\<close> when the clock reads \<open>clock\<close>, up to its next suspension
  or its end. A timer does not fire before it is due: resuming a suspended task earlier
  does nothing. The clock readings taken within one uninterrupted run are taken to be
  equal.
\<close>

fun resume :: "int \<Rightarrow> wait_task \<Rightarrow> rate_limit_state \<Rightarrow> wait_task \<times> rate_limit_state" where
  "resume clock Start st =
     (let now = clock;
          st1 = (if now > resetTime st then st\<lparr>requestCount := 0, remaining := 5000\<rparr> else st)
      in if remaining st1 \<le> 100
         then (let waitTime = max 0 (resetTime st1 - now)
               in if waitTime > 0 then (QuotaWait now (clock + waitTime), st1)
                  else spacingPhase now clock st1)
         else spacingPhase now clock st1)"
| "resume clock (QuotaWait now due) st =
     (if clock < due then (QuotaWait now due, st) else spacingPhase now clock st)"
| "resume clock (SpacingWait due) st =
     (if clock < due then (SpacingWait due, st) else (Completed clock, recordRequest clock st))"
| "resume clock (Completed t) st = (Completed t, st)"

text \<open>
  One call running alone, entered at clock reading \<open>clock\<close>: each timer fires \<open>lag\<close>
  milliseconds after it is due (\<open>lagQuota\<close> for the quota timer, \<open>lagSpacing\<close> for the
  spacing timer). The call always completes; the result is the limiter's state after it.
\<close>

definition waitIfNeeded :: "int \<Rightarrow> nat \<Rightarrow> nat \<Rightarrow> rate_limit_state \<Rightarrow> rate_limit_state" where
  "waitIfNeeded clock lagQuota lagSpacing st =
     (case resume clock Start st of
        (QuotaWait now due, st1) \<Rightarrow>
          (case resume (due + int lagQuota) (QuotaWait now due) st1 of
             (SpacingWait due2, st2) \<Rightarrow> snd (resume (due2 + int lagSpacing) (SpacingWait due2) st2)
           | (t, st2) \<Rightarrow> st2)
      | (SpacingWait due, st1) \<Rightarrow> snd (resume (due + int lagSpacing) (SpacingWait due) st1)
      | (t, st1) \<Rightarrow> st1)"

text \<open>
  Several calls in progress on one limiter. An event \<open>(clock, i)\<close> lets call \<open>i\<close> run at
  clock reading \<open>clock\<close>; a schedule is a list of events in the order they happen.
\<close>

fun runEvent :: "int \<times> nat \<Rightarrow> wait_task list \<times> rate_limit_state \<Rightarrow> wait_task list \<times> rate_limit_state" where
  "runEvent (clock, i) (tasks, st) =
     (if i < length tasks
      then (case resume clock (tasks ! i) st of (t, st') \<Rightarrow> (tasks[i := t], st'))
      else (tasks, st))"

fun runSchedule ::
  "(int \<times> nat) list \<Rightarrow> wait_task list \<times> rate_limit_state \<Rightarrow> wait_task list \<times> rate_limit_state" where
  "runSchedule [] s = s"
| "runSchedule (e # es) s = runSchedule es (runEvent e s)"

section \<open>Search (part_001, lines 64-92 and 150-176; enhanced-github-api.ts, lines 65-115, 302-344, 377-394)\<close>

datatype error = SearchFailed | EnhancedSearchFailed

text \<open>The request sent to the hosting API's repository search, and its response.\<close>

record search_request =
  req_q :: string
  req_sort :: "sort_key option"
  req_order :: sort_order
  req_per_page :: nat
  req_page :: int

record search_response =
  resp_items :: "api_item list"
  total_count :: nat

text \<open>
  The result of a search. The enhanced search returns repositories that carry four more
  fields, so the record is polymorphic in the repository type.
\<close>

record 'r search_result =
  repositories :: "'r list"
  totalCount :: nat
  hasMore :: bool
  nextPage :: "int option"

record enhanced_repository = repository +
  languages :: "string list"
  contributorCount :: nat
  lastCommit :: "int option"
  license :: "string option"

text \<open>
  Everything a call takes from outside the program: the responses of the hosting API
  (\<open>None\<close> when the request fails), \<^verbatim>\<open>JSON.stringify\<close> on a filter object, the engine's
  \<^verbatim>\<open>Math.log10\<close>, and the clock readings, one field for each place where the source reads
  the clock. The language and
  contributor lookups are called with the owner and name split from \<^verbatim>\<open>full_name\<close>, so
  their answer is a function of \<^verbatim>\<open>full_name\<close>. \<open>tScore i\<close> is the reading when item \<open>i\<close>
  of a response is scored.
\<close>

record 'c outside =
  searchRepos :: "search_request \<Rightarrow> search_response option"
  listLanguages :: "string \<Rightarrow> string list option"
  listContributors :: "string \<Rightarrow> 'c list option"
  jsonStringify :: "enhanced_search_filters \<Rightarrow> string"
  mathLog10 :: "real \<Rightarrow> real"
  tCheck :: int
  tEnter :: int
  lagQuota :: nat
  lagSpacing :: nat
  tQuery :: int
  tScore :: "nat \<Rightarrow> int"
  tStore :: int

text \<open>\<^verbatim>\<open>Promise.all\<close> over the items: the first failure fails the whole.\<close>

fun allOrNothing :: "'a option list \<Rightarrow> 'a list option" where
  "allOrNothing [] = Some []"
| "allOrNothing (None # xs) = None"
| "allOrNothing (Some x # xs) = (case allOrNothing xs of None \<Rightarrow> None | Some ys \<Rightarrow> Some (x # ys))"

text \<open>
  \<^verbatim>\<open>enrichRepositories\<close>, one item: \<^verbatim>\<open>repo.owner.login\<close> throws a \<^verbatim>\<open>TypeError\<close> when the
  item has no owner (\<open>None\<close>). The item's own \<^verbatim>\<open>qualityScore\<close> property is not read.
\<close>

definition enrichRepository :: "(real \<Rightarrow> real) \<Rightarrow> int \<Rightarrow> api_item \<Rightarrow> repository option" where
  "enrichRepository log10 now repo =
     (let qualityScore' = calculateQualityScore log10 now repo
      in case item_owner repo of
           None \<Rightarrow> None
         | Some ow \<Rightarrow>
             Some \<lparr>repo_id = item_id repo,
                   name = item_name repo,
                   full_name = item_full_name repo,
                   description = item_description repo,
                   html_url = item_html_url repo,
                   language = item_language repo,
                   stargazers_count = item_stargazers_count repo,
                   forks_count = item_forks_count repo,
                   open_issues_count = item_open_issues_count repo,
                   updated_at = item_updated_at repo,
                   created_at = item_created_at repo,
                   topics = (case item_topics repo of Some ts \<Rightarrow> ts | None \<Rightarrow> []),
                   owner = \<lparr>login = login ow, avatar_url = avatar_url ow\<rparr>,
                   qualityScore = Some qualityScore'\<rparr>)"

definition enrichRepositories ::
  "(real \<Rightarrow> real) \<Rightarrow> (nat \<Rightarrow> int) \<Rightarrow> api_item list \<Rightarrow> repository list option" where
  "enrichRepositories log10 clock repos =
     allOrNothing (map (\<lambda>(i, repo). enrichRepository log10 (clock i) repo) (enumerate 0 repos))"

text \<open>
  \<^verbatim>\<open>searchRepositories\<close>: the whole body is inside \<^verbatim>\<open>try\<close>, and every failure is rethrown
  as \<^verbatim>\<open>Error('Failed to search repositories')\<close>.
\<close>

definition standardSearchRequest ::
  "engine_world \<Rightarrow> string \<Rightarrow> 'a search_filters_scheme \<Rightarrow> int \<Rightarrow> search_request" where
  "standardSearchRequest w query filters page =
     \<lparr>req_q = engineBuildSmartQuery w query filters,
      req_sort = Some (case f_sortBy filters of Some k \<Rightarrow> k | None \<Rightarrow> SortStars),
      req_order = (case f_order filters of Some d \<Rightarrow> d | None \<Rightarrow> Desc),
      req_per_page = 30,
      req_page = page\<rparr>"

definition searchRepositories ::
  "'c outside \<Rightarrow> engine_world \<Rightarrow> string \<Rightarrow> 'a search_filters_scheme \<Rightarrow> int
   \<Rightarrow> error + repository search_result" where
  "searchRepositories out w query filters page =
     (let request = standardSearchRequest w query filters page
      in case searchRepos out request of
           None \<Rightarrow> Inl SearchFailed
         | Some response \<Rightarrow>
             (case enrichRepositories (mathLog10 out) (tScore out) (resp_items response) of
                None \<Rightarrow> Inl SearchFailed
              | Some repos \<Rightarrow>
                  Inr \<lparr>repositories = repos,
                       totalCount = total_count response,
                       hasMore = (length (resp_items response) = 30),
                       nextPage = (if length (resp_items response) = 30 then Some (page + 1)
                                   else None)\<rparr>))"

text \<open>
  \<^verbatim>\<open>enhancedEnrichment\<close>, one item. A failed language or contributor lookup is replaced by
  the empty answer. The item's own \<^verbatim>\<open>qualityScore\<close> property is not read.
\<close>

definition getRepositoryLanguages :: "'c outside \<Rightarrow> string \<Rightarrow> string list" where
  "getRepositoryLanguages out fullName = (case listLanguages out fullName of Some ls \<Rightarrow> ls | None \<Rightarrow> [])"

definition getTopContributors :: "'c outside \<Rightarrow> string \<Rightarrow> 'c list" where
  "getTopContributors out fullName = (case listContributors out fullName of Some cs \<Rightarrow> cs | None \<Rightarrow> [])"

definition enhancedEnrichRepository :: "'c outside \<Rightarrow> int \<Rightarrow> api_item \<Rightarrow> enhanced_repository option" where
  "enhancedEnrichRepository out now repo =
     (let languages' = getRepositoryLanguages out (item_full_name repo);
          contributors = getTopContributors out (item_full_name repo);
          qualityScore' =
            calculateEnhancedQualityScore (mathLog10 out) now repo languages' contributors
      in case item_owner repo of
           None \<Rightarrow> None
         | Some ow \<Rightarrow>
             Some \<lparr>repo_id = item_id repo,
                   name = item_name repo,
                   full_name = item_full_name repo,
                   description = item_description repo,
                   html_url = item_html_url repo,
                   language = item_language repo,
                   stargazers_count = item_stargazers_count repo,
                   forks_count = item_forks_count repo,
                   open_issues_count = item_open_issues_count repo,
                   updated_at = item_updated_at repo,
                   created_at = item_created_at repo,
                   topics = (case item_topics repo of Some ts \<Rightarrow> ts | None \<Rightarrow> []),
                   owner = \<lparr>login = login ow, avatar_url = avatar_url ow\<rparr>,
                   qualityScore = Some qualityScore',
                   languages = languages',
                   contributorCount = length contributors,
                   lastCommit = item_pushed_at repo,
                   license = item_license_name repo\<rparr>)"

definition enhancedEnrichment :: "'c outside \<Rightarrow> api_item list \<Rightarrow> enhanced_repository list option" where
  "enhancedEnrichment out repos =
     allOrNothing (map (\<lambda>(i, repo). enhancedEnrichRepository out (tScore out i) repo) (enumerate 0 repos))"

text \<open>\<^verbatim>\<open>applyAdvancedFilters\<close>; \<^verbatim>\<open>repo.qualityScore || 0\<close> is 0 for an absent score.\<close>

definition qualityThresholds :: "quality_bucket \<Rightarrow> int" where
  "qualityThresholds b = (case b of Excellent \<Rightarrow> 85 | Good \<Rightarrow> 70 | Fair \<Rightarrow> 55 | Poor \<Rightarrow> 0)"

definition applyAdvancedFilters ::
  "'a repository_scheme list \<Rightarrow> 'b enhanced_search_filters_scheme \<Rightarrow> 'a repository_scheme list" where
  "applyAdvancedFilters repos filters =
     filter (\<lambda>repo. case f_codeQuality filters of
                      Some b \<Rightarrow> \<not> ((case qualityScore repo of Some s \<Rightarrow> s | None \<Rightarrow> 0) < qualityThresholds b)
                    | None \<Rightarrow> True) repos"

text \<open>
  The state of an \<^verbatim>\<open>EnhancedGitHubAPI\<close> object: its cache and its rate limiter. The cache
  is a \<^verbatim>\<open>Map\<close> from strings; the entries written by \<^verbatim>\<open>enhancedSearch\<close> are modelled (those
  of the trending analysis have keys that start with \<^verbatim>\<open>trending-\<close>). \<open>searchCalls\<close> is the log
  of the search requests sent to the hosting API, oldest first: it records the external
  calls as an effect.
\<close>

record cache_entry =
  data :: "enhanced_repository search_result"
  timestamp :: int

record api_world =
  cache :: "string \<Rightarrow> cache_entry option"
  rateLimitManager :: rate_limit_state
  searchCalls :: "search_request list"

definition newEnhancedGitHubAPI :: api_world where
  "newEnhancedGitHubAPI =
     \<lparr>cache = Map.empty, rateLimitManager = newRateLimitManager, searchCalls = []\<rparr>"

definition cacheTimeout :: int where
  "cacheTimeout = 1000 * 60 * 15"

definition searchCacheKey :: "'c outside \<Rightarrow> string \<Rightarrow> enhanced_search_filters \<Rightarrow> int \<Rightarrow> string" where
  "searchCacheKey out query filters page =
     ''search-'' @ query @ ''-'' @ jsonStringify out filters @ ''-'' @ showInt page"

definition enhancedSearchRequest :: "'c outside \<Rightarrow> string \<Rightarrow> enhanced_search_filters \<Rightarrow> int \<Rightarrow> search_request" where
  "enhancedSearchRequest out query filters page =
     \<lparr>req_q = buildEnhancedQuery (tQuery out) query filters,
      req_sort = (if f_sortBy filters = Some SortName then None
                  else Some (case f_sortBy filters of Some k \<Rightarrow> k | None \<Rightarrow> SortStars)),
      req_order = (case f_order filters of Some d \<Rightarrow> d | None \<Rightarrow> Desc),
      req_per_page = 50,
      req_page = page\<rparr>"

text \<open>
  \<^verbatim>\<open>enhancedSearch\<close>, lines 79-114: what happens when the cache does not answer. The wait
  on the rate limiter comes first, outside \<^verbatim>\<open>try\<close>; every failure inside \<^verbatim>\<open>try\<close> is rethrown
  as \<^verbatim>\<open>Error('Enhanced search failed')\<close>, after the request has been sent and before the
  cache is written.
\<close>

definition enhancedSearchMiss ::
  "'c outside \<Rightarrow> string \<Rightarrow> enhanced_search_filters \<Rightarrow> int \<Rightarrow> api_world
   \<Rightarrow> (error + enhanced_repository search_result) \<times> api_world" where
  "enhancedSearchMiss out query filters page w =
     (let cacheKey = searchCacheKey out query filters page;
          w1 = w\<lparr>rateLimitManager :=
                   waitIfNeeded (tEnter out) (lagQuota out) (lagSpacing out) (rateLimitManager w)\<rparr>;
          request = enhancedSearchRequest out query filters page;
          w2 = w1\<lparr>searchCalls := searchCalls w1 @ [request]\<rparr>
      in case searchRepos out request of
           None \<Rightarrow> (Inl EnhancedSearchFailed, w2)
         | Some response \<Rightarrow>
             (case enhancedEnrichment out (resp_items response) of
                None \<Rightarrow> (Inl EnhancedSearchFailed, w2)
              | Some enrichedRepos \<Rightarrow>
                  (let filteredRepos = applyAdvancedFilters enrichedRepos filters;
                       result = \<lparr>repositories = filteredRepos,
                                 totalCount = total_count response,
                                 hasMore = (length filteredRepos = 50),
                                 nextPage = (if length filteredRepos = 50 then Some (page + 1)
                                             else None)\<rparr>
                   in (Inr result,
                       w2\<lparr>cache := (cache w2)(cacheKey \<mapsto> \<lparr>data = result, timestamp = tStore out\<rparr>)\<rparr>))))"

text \<open>\<^verbatim>\<open>enhancedSearch\<close>, lines 65-115.\<close>

definition enhancedSearch ::
  "'c outside \<Rightarrow> string \<Rightarrow> enhanced_search_filters \<Rightarrow> int \<Rightarrow> api_world
   \<Rightarrow> (error + enhanced_repository search_result) \<times> api_world" where
  "enhancedSearch out query filters page w =
     (let cacheKey = searchCacheKey out query filters page
      in case cache w cacheKey of
           Some cached \<Rightarrow>
             (if tCheck out - timestamp cached < cacheTimeout
              then (Inr (data cached), w)
              else enhancedSearchMiss out query filters page w)
         | None \<Rightarrow> enhancedSearchMiss out query filters page w)"

text \<open>
  An outside world for examples: the hosting API answers every search with a full page of
  50 copies of \<open>bareItem\<close> and a total of 1000, the lookups fail, and every clock reading is
  2025-11-02T00:00:00Z, the time \<open>bareItem\<close> was last updated.
\<close>

definition fullPageOutside :: "unit outside" where
  "fullPageOutside =
     \<lparr>searchRepos = (\<lambda>request. Some \<lparr>resp_items = replicate 50 bareItem, total_count = 1000\<rparr>),
      listLanguages = (\<lambda>fullName. None),
      listContributors = (\<lambda>fullName. None),
      jsonStringify = (\<lambda>filters. ''{}''),
      mathLog10 = correctlyRoundedLog10,
      tCheck = 1762041600000,
      tEnter = 1762041600000,
      lagQuota = 0,
      lagSpacing = 0,
      tQuery = 1762041600000,
      tScore = (\<lambda>i. 1762041600000),
      tStore = 1762041600000\<rparr>"



section \<open>Project combination (part_000)\<close>

record combination_request =
  req_repositories :: "repository list"
  projectName :: string
  req_description :: "string option"
  req_targetFramework :: "string option"
  req_features :: "string list"

record project_structure =
  folders :: "string list"
  entryPoints :: "string list"
  configFiles :: "string list"
  assetFolders :: "string list"

datatype file_type = Component | Config | Style | Api | Utility | Test

record generated_file =
  file_path :: string
  file_content :: string
  file_type :: file_type
  file_source :: string

record deployment_config =
  platform :: string
  envVars :: "string list"
  buildCommand :: string
  outputDirectory :: string

text \<open>
  \<^verbatim>\<open>CombinationResult\<close>; \<^verbatim>\<open>scripts\<close> is an object, kept as the list of its entries in
  property order.
\<close>

record combination_result =
  result_id :: string
  result_name :: string
  result_description :: string
  result_structure :: project_structure
  result_files :: "generated_file list"
  result_dependencies :: "string list"
  result_scripts :: "(string \<times> string) list"
  result_instructions :: "string list"
  result_deploymentConfig :: "deployment_config option"

record repository_analysis =
  analysed_repository :: repository
  framework :: string
  components :: "string list"
  dependencies :: "string list"
  repo_structure :: project_structure
  features :: "string list"
  codeQuality :: int

record merge_strategy =
  strategy_type :: string
  targetFramework :: string
  conflictResolution :: string
  componentMerging :: string
  dependencyStrategy :: string

text \<open>
  \<^verbatim>\<open>[...new Set(xs)]\<close>: the elements of \<open>xs\<close> in the order of their first occurrence.
\<close>

definition setAdd :: "'a list \<Rightarrow> 'a \<Rightarrow> 'a list" where
  "setAdd seen x = (if x \<in> set seen then seen else seen @ [x])"

definition newSet :: "'a list \<Rightarrow> 'a list" where
  "newSet xs = foldl setAdd [] xs"

text \<open>\<^verbatim>\<open>detectFramework\<close>, lines 118-135.\<close>

definition detectFramework :: "'a repository_scheme \<Rightarrow> string" where
  "detectFramework repo =
     (let name' = toLowerCase (name repo);
          description' = toLowerCase (case description repo of Some d \<Rightarrow> d | None \<Rightarrow> []);
          topics' = map toLowerCase (topics repo);
          allText = name' @ '' '' @ description' @ '' '' @ join '' '' topics'
      in if str_includes allText ''nextjs'' \<or> str_includes allText ''next.js'' then ''nextjs''
         else if str_includes allText ''remix'' then ''remix''
         else if str_includes allText ''react'' then ''react''
         else if str_includes allText ''vue'' then ''vue''
         else if str_includes allText ''angular'' then ''angular''
         else if str_includes allText ''express'' then ''express''
         else if str_includes allText ''fastapi'' then ''fastapi''
         else if str_includes allText ''django'' then ''django''
         else ''unknown'')"

text \<open>\<^verbatim>\<open>extractComponents\<close>, lines 140-166.\<close>

definition componentPatterns :: "string list" where
  "componentPatterns =
     [''authentication'', ''auth'', ''login'',
      ''dashboard'', ''admin'', ''panel'',
      ''chat'', ''messaging'', ''communication'',
      ''payment'', ''stripe'', ''billing'',
      ''database'', ''orm'', ''prisma'',
      ''api'', ''rest'', ''graphql'',
      ''ui'', ''components'', ''design-system'',
      ''charts'', ''visualization'', ''analytics'',
      ''file-upload'', ''storage'', ''aws'',
      ''email'', ''notifications'', ''smtp'']"

definition extractComponents :: "'a repository_scheme \<Rightarrow> string list" where
  "extractComponents repo =
     (let topics' = topics repo;
          description' = (case description repo of Some d \<Rightarrow> d | None \<Rightarrow> [])
      in filter (\<lambda>pattern. pattern \<in> set topics' \<or> str_includes (toLowerCase description') pattern)
           componentPatterns)"

text \<open>\<^verbatim>\<open>extractDependencies\<close>, lines 171-216.\<close>

definition frameworkDependencies :: "string \<Rightarrow> string list" where
  "frameworkDependencies fw =
     (if fw = ''nextjs'' then [''next'', ''react'', ''react-dom'']
      else if fw = ''remix'' then [''@remix-run/node'', ''@remix-run/react'']
      else if fw = ''react'' then [''react'', ''react-dom'']
      else if fw = ''vue'' then [''vue'']
      else [])"

definition topicDependencies :: "string \<Rightarrow> string list" where
  "topicDependencies topic =
     (let t = toLowerCase topic
      in if t = ''typescript'' then [''typescript'']
         else if t = ''tailwindcss'' then [''tailwindcss'']
         else if t = ''prisma'' then [''prisma'']
         else if t = ''stripe'' then [''stripe'']
         else if t = ''framer-motion'' then [''framer-motion'']
         else [])"

definition extractDependencies :: "'a repository_scheme \<Rightarrow> string list" where
  "extractDependencies repo =
     (let deps = [];
          framework' = detectFramework repo;
          deps = deps @ frameworkDependencies framework';
          deps = deps @ concat (map topicDependencies (topics repo))
      in newSet deps)"

text \<open>\<^verbatim>\<open>analyzeStructure\<close>, lines 221-247.\<close>

definition nextjsStructure :: project_structure where
  "nextjsStructure =
     \<lparr>folders = [''app'', ''components'', ''lib'', ''public'', ''styles''],
      entryPoints = [''app/page.tsx'', ''app/layout.tsx''],
      configFiles = [''next.config.js'', ''tailwind.config.js''],
      assetFolders = [''public'', ''assets'']\<rparr>"

definition remixStructure :: project_structure where
  "remixStructure =
     \<lparr>folders = [''app'', ''app/routes'', ''app/components'', ''app/lib'', ''public''],
      entryPoints = [''app/root.tsx'', ''app/routes/_index.tsx''],
      configFiles = [''remix.config.js'', ''tailwind.config.js''],
      assetFolders = [''public'']\<rparr>"

definition reactStructure :: project_structure where
  "reactStructure =
     \<lparr>folders = [''src'', ''src/components'', ''src/hooks'', ''src/utils'', ''public''],
      entryPoints = [''src/App.tsx'', ''src/main.tsx''],
      configFiles = [''vite.config.ts'', ''tailwind.config.js''],
      assetFolders = [''public'', ''src/assets'']\<rparr>"

definition analyzeStructure :: "'a repository_scheme \<Rightarrow> project_structure" where
  "analyzeStructure repo =
     (let framework' = detectFramework repo
      in if framework' = ''nextjs'' then nextjsStructure
         else if framework' = ''remix'' then remixStructure
         else reactStructure)"

text \<open>
  \<^verbatim>\<open>identifyFeatures\<close>, lines 252-276. The template literal renders a \<^verbatim>\<open>null\<close> description
  as the four letters \<^verbatim>\<open>null\<close>.
\<close>

definition featurePatterns :: "(string \<times> string list) list" where
  "featurePatterns =
     [(''User Authentication'', [''auth'', ''login'', ''jwt'', ''oauth'']),
      (''Database Integration'', [''database'', ''orm'', ''prisma'', ''mongodb'', ''postgresql'']),
      (''Payment Processing'', [''payment'', ''stripe'', ''billing'', ''checkout'']),
      (''File Upload'', [''upload'', ''storage'', ''aws'', ''s3'', ''cloudinary'']),
      (''Real-time Features'', [''websocket'', ''realtime'', ''socket.io'', ''sse'']),
      (''API Integration'', [''api'', ''rest'', ''graphql'', ''fetch'']),
      (''UI Components'', [''components'', ''ui'', ''design-system'', ''tailwind'']),
      (''Charts & Analytics'', [''charts'', ''analytics'', ''visualization'', ''d3'']),
      (''Search Functionality'', [''search'', ''elasticsearch'', ''algolia'', ''fuse'']),
      (''Email System'', [''email'', ''smtp'', ''sendgrid'', ''mailgun''])]"

definition identifyFeatures :: "'a repository_scheme \<Rightarrow> string list" where
  "identifyFeatures repo =
     (let allText = toLowerCase (name repo @ '' ''
                      @ (case description repo of Some d \<Rightarrow> d | None \<Rightarrow> ''null'') @ '' ''
                      @ join '' '' (topics repo))
      in map fst (filter (\<lambda>(feature, keywords). \<exists>keyword \<in> set keywords. str_includes allText keyword)
                    featurePatterns))"

text \<open>
  \<^verbatim>\<open>analyzeRepository\<close>, lines 100-113. \<^verbatim>\<open>repo.qualityScore || 0\<close> is the repository's own
  score, and 0 when it has none.
\<close>

definition analyzeRepository :: "repository \<Rightarrow> repository_analysis" where
  "analyzeRepository repo =
     \<lparr>analysed_repository = repo,
      framework = detectFramework repo,
      components = extractComponents repo,
      dependencies = extractDependencies repo,
      repo_structure = analyzeStructure repo,
      features = identifyFeatures repo,
      codeQuality = (case qualityScore repo of Some s \<Rightarrow> s | None \<Rightarrow> 0)\<rparr>"

text \<open>
  \<^verbatim>\<open>generateCombinationId\<close>, lines 281-284. \<^verbatim>\<open>sort()\<close> without a comparison function orders
  the ids by their renderings as strings, compared by character code; \<^verbatim>\<open>join\<close> renders
  them. \<open>repoIds\<close> is the local constant of that name.
\<close>

definition repoIds :: "combination_request \<Rightarrow> string" where
  "repoIds request = join ''-'' (map showInt (sort_key showInt (map repo_id (req_repositories request))))"

definition generateCombinationId :: "int \<Rightarrow> combination_request \<Rightarrow> string" where
  "generateCombinationId now request = ''combo-'' @ showInt now @ ''-'' @ take 20 (repoIds request)"

text \<open>
  The specification's repository component, for comparison: the repositories' ids sorted
  as the numbers they are, joined with \<^verbatim>\<open>-\<close>.
\<close>

definition specRepoIds :: "combination_request \<Rightarrow> string" where
  "specRepoIds request = join ''-'' (map showInt (sort (map repo_id (req_repositories request))))"

text \<open>
  \<^verbatim>\<open>findDominantFramework\<close>, lines 305-313. The counts object keeps its keys in the order
  they were first added; the sort by descending count is stable; an empty list, like an
  empty name, gives \<^verbatim>\<open>'react'\<close>.
\<close>

fun countFramework :: "(string \<times> nat) list \<Rightarrow> string \<Rightarrow> (string \<times> nat) list" where
  "countFramework [] fw = [(fw, 1)]"
| "countFramework ((k, c) # acc) fw =
     (if k = fw then (k, c + 1) # acc else (k, c) # countFramework acc fw)"

definition findDominantFramework :: "string list \<Rightarrow> string" where
  "findDominantFramework frameworks =
     (let counts = foldl countFramework [] frameworks
      in case sort_key (\<lambda>(k, c). - int c) counts of
           [] \<Rightarrow> ''react''
         | (k, c) # rest \<Rightarrow> if k = [] then ''react'' else k)"

text \<open>\<^verbatim>\<open>determineMergeStrategy\<close>, lines 289-303.\<close>

definition determineMergeStrategy :: "repository_analysis list \<Rightarrow> string option \<Rightarrow> merge_strategy" where
  "determineMergeStrategy analyses targetFramework' =
     (let frameworks = map framework analyses;
          dominantFramework =
            (case targetFramework' of
               Some t \<Rightarrow> if t \<noteq> [] then t else findDominantFramework frameworks
             | None \<Rightarrow> findDominantFramework frameworks)
      in \<lparr>strategy_type = ''intelligent'',
          targetFramework = dominantFramework,
          conflictResolution = ''smart-merge'',
          componentMerging = ''selective'',
          dependencyStrategy = ''unified''\<rparr>)"

text \<open>Lines 316-373.\<close>

definition generateProjectStructure :: "repository_analysis list \<Rightarrow> merge_strategy \<Rightarrow> project_structure" where
  "generateProjectStructure analyses strategy =
     (case analyses of
        a # rest \<Rightarrow> repo_structure a
      | [] \<Rightarrow> \<lparr>folders = [''src'', ''components'', ''lib'', ''public''],
               entryPoints = [''src/App.tsx''],
               configFiles = [''package.json''],
               assetFolders = [''public'']\<rparr>)"

definition generateFiles ::
  "repository_analysis list \<Rightarrow> project_structure \<Rightarrow> merge_strategy \<Rightarrow> generated_file list" where
  "generateFiles analyses structure' strategy = []"

definition resolveDependencies :: "repository_analysis list \<Rightarrow> string list" where
  "resolveDependencies analyses =
     (let allDeps = concat (map dependencies analyses) in newSet allDeps)"

definition generateScripts :: "string option \<Rightarrow> project_structure \<Rightarrow> (string \<times> string) list" where
  "generateScripts framework' structure' =
     (if framework' = Some ''nextjs'' then
        [(''dev'', ''next dev''), (''build'', ''next build''), (''start'', ''next start''),
         (''lint'', ''eslint . --ext .ts,.tsx''), (''type-check'', ''tsc --noEmit'')]
      else if framework' = Some ''remix'' then
        [(''dev'', ''remix dev''), (''build'', ''remix build''), (''start'', ''remix-serve build''),
         (''lint'', ''eslint . --ext .ts,.tsx''), (''type-check'', ''tsc --noEmit'')]
      else
        [(''dev'', ''npm run dev''), (''build'', ''npm run build''), (''start'', ''npm start''),
         (''lint'', ''eslint . --ext .ts,.tsx''), (''type-check'', ''tsc --noEmit'')])"

definition generateDeploymentConfig :: "string option \<Rightarrow> deployment_config" where
  "generateDeploymentConfig framework' =
     \<lparr>platform = ''vercel'',
      envVars = [''GITHUB_TOKEN'', ''DATABASE_URL''],
      buildCommand = ''npm run build'',
      outputDirectory = (if framework' = Some ''nextjs'' then ''.next'' else ''build'')\<rparr>"

text \<open>
  \<^verbatim>\<open>generateInstructions\<close> and \<^verbatim>\<open>getFolderDescription\<close>, lines 375-416. The four headings
  begin with a pictograph; strings are byte sequences here, and each pictograph is given
  by the four bytes of its UTF-8 encoding.
\<close>

definition rocket :: string where
  "rocket = [CHR 0xF0, CHR 0x9F, CHR 0x9A, CHR 0x80]"

definition fileFolder :: string where
  "fileFolder = [CHR 0xF0, CHR 0x9F, CHR 0x93, CHR 0x81]"

definition wrench :: string where
  "wrench = [CHR 0xF0, CHR 0x9F, CHR 0x94, CHR 0xA7]"

definition books :: string where
  "books = [CHR 0xF0, CHR 0x9F, CHR 0x93, CHR 0x9A]"

definition getFolderDescription :: "string \<Rightarrow> string" where
  "getFolderDescription folder =
     (if folder = ''app'' then ''Main application code (Remix/Next.js)''
      else if folder = ''src'' then ''Source code directory''
      else if folder = ''components'' then ''Reusable UI components''
      else if folder = ''lib'' then ''Utility functions and services''
      else if folder = ''public'' then ''Static assets''
      else if folder = ''styles'' then ''CSS and styling files''
      else if folder = ''routes'' then ''Route components''
      else if folder = ''hooks'' then ''Custom React hooks''
      else if folder = ''utils'' then ''Utility functions''
      else if folder = ''types'' then ''TypeScript type definitions''
      else ''Project files'')"

definition generateInstructions :: "combination_request \<Rightarrow> project_structure \<Rightarrow> string list" where
  "generateInstructions request structure' =
     [rocket @ '' **Setup Instructions**'',
      '''',
      ''1. Clone or download the generated project'',
      ''2. Install dependencies: `npm install`'',
      ''3. Copy `.env.example` to `.env` and configure your environment variables'',
      ''4. Start development server: `npm run dev`'',
      '''',
      fileFolder @ '' **Project Structure**'']
     @ map (\<lambda>folder. ''- /'' @ folder @ ''/ - '' @ getFolderDescription folder) (folders structure')
     @ ['''',
        wrench @ '' **Configuration**'',
        ''- Update environment variables in `.env`'',
        ''- Customize configuration files as needed'',
        ''- Review and modify generated components'',
        '''',
        rocket @ '' **Deployment**'',
        ''- Deploy to Vercel: `vercel --prod`'',
        ''- Or build for production: `npm run build`'',
        '''',
        books @ '' **Source Repositories**'']
     @ map (\<lambda>repo. ''- ['' @ full_name repo @ '']('' @ html_url repo @ '') - ''
                   @ (case description repo of Some d \<Rightarrow> d | None \<Rightarrow> ''null''))
         (req_repositories request)"

text \<open>
  \<^verbatim>\<open>combineProjects\<close>, lines 50-95; \<open>now\<close> is the value of \<^verbatim>\<open>Date.now()\<close> read for the id, and
  the state is the map \<^verbatim>\<open>combinations\<close>. \<open>requestMergeStrategy\<close> is the local constant
  \<^verbatim>\<open>mergeStrategy\<close>, which the result does not carry.
\<close>

definition requestMergeStrategy :: "combination_request \<Rightarrow> merge_strategy" where
  "requestMergeStrategy request =
     determineMergeStrategy (map analyzeRepository (req_repositories request))
       (req_targetFramework request)"

definition combineProjects ::
  "int \<Rightarrow> combination_request \<Rightarrow> (string \<Rightarrow> combination_result option)
   \<Rightarrow> combination_result \<times> (string \<Rightarrow> combination_result option)" where
  "combineProjects now request combinations =
     (let combinationId = generateCombinationId now request;
          analyses = map analyzeRepository (req_repositories request);
          mergeStrategy = requestMergeStrategy request;
          structure' = generateProjectStructure analyses mergeStrategy;
          files = generateFiles analyses structure' mergeStrategy;
          dependencies' = resolveDependencies analyses;
          scripts = generateScripts (req_targetFramework request) structure';
          deploymentConfig = generateDeploymentConfig (req_targetFramework request);
          instructions = generateInstructions request structure';
          result =
            \<lparr>result_id = combinationId,
             result_name = projectName request,
             result_description =
               (case req_description request of
                  Some d \<Rightarrow> if d \<noteq> [] then d
                            else ''Combined project from '' @ showNat (length (req_repositories request))
                                 @ '' repositories''
                | None \<Rightarrow> ''Combined project from '' @ showNat (length (req_repositories request))
                          @ '' repositories''),
             result_structure = structure',
             result_files = files,
             result_dependencies = dependencies',
             result_scripts = scripts,
             result_instructions = instructions,
             result_deploymentConfig = Some deploymentConfig\<rparr>
      in (result, combinations(combinationId \<mapsto> result)))"

text \<open>Two repositories about Next.js, for examples.\<close>

definition shopRepo :: repository where
  "shopRepo =
     \<lparr>repo_id = 9, name = ''nextjs-shop'', full_name = ''acme/nextjs-shop'',
      description = Some ''A shop'', html_url = ''https://github.com/acme/nextjs-shop'',
      language = Some ''TypeScript'', stargazers_count = 10, forks_count = 1,
      open_issues_count = 0, updated_at = 1762041600000, created_at = 1700000000000,
      topics = [''typescript'', ''stripe''],
      owner = \<lparr>login = ''acme'', avatar_url = ''https://avatars/acme''\<rparr>,
      qualityScore = Some 40\<rparr>"

definition blogRepo :: repository where
  "blogRepo =
     \<lparr>repo_id = 10, name = ''blog'', full_name = ''acme/blog'',
      description = Some ''Blog built with Next.js'', html_url = ''https://github.com/acme/blog'',
      language = Some ''TypeScript'', stargazers_count = 3, forks_count = 0,
      open_issues_count = 2, updated_at = 1762041600000, created_at = 1700000000000,
      topics = [''TypeScript'', ''tailwindcss''],
      owner = \<lparr>login = ''acme'', avatar_url = ''https://avatars/acme''\<rparr>,
      qualityScore = None\<rparr>"

definition shopAndBlog :: combination_request where
  "shopAndBlog =
     \<lparr>req_repositories = [shopRepo, blogRepo], projectName = ''site'',
      req_description = None, req_targetFramework = None, req_features = []\<rparr>"

section \<open>Theorems\<close>

text \<open>
  C4. For a repository list of length 0 or 1, \<^verbatim>\<open>analyzeProjectCompatibility\<close> returns
  compatibility score 100, no conflicts and a non-empty list of suggestions (the single
  guidance sentence), and \<^verbatim>\<open>getCompatibilityScore\<close> returns 100. Both models are total,
  as the source has no failing statement on this path.
\<close>

theorem insufficient_input_neutral:
  assumes "length repos < 2"
  shows "compatibilityScore (analyzeProjectCompatibility repos) = 100
       \<and> conflicts (analyzeProjectCompatibility repos) = []
       \<and> suggestions (analyzeProjectCompatibility repos)
           = [''Add more repositories to analyze compatibility'']
       \<and> suggestions (analyzeProjectCompatibility repos) \<noteq> []
       \<and> getCompatibilityScore analyze repos = 100"
  using assms by (simp add: analyzeProjectCompatibility_def getCompatibilityScore_def)

theorem insufficient_input_neutral_witness:
  "length ([] :: repository list) < 2
   \<and> compatibilityScore (analyzeProjectCompatibility []) = 100
   \<and> getCompatibilityScore (\<lambda>r. ()) [] = 100
   \<and> length [shopRepo] < 2
   \<and> compatibilityScore (analyzeProjectCompatibility [shopRepo]) = 100
   \<and> conflicts (analyzeProjectCompatibility [shopRepo]) = []
   \<and> suggestions (analyzeProjectCompatibility [shopRepo]) \<noteq> []
   \<and> getCompatibilityScore (\<lambda>r. ()) [shopRepo] = 100"
  using insufficient_input_neutral [of "[]" "\<lambda>r. ()"]
    insufficient_input_neutral [of "[shopRepo]" "\<lambda>r. ()"]
  by simp

subsection \<open>The exclusion list\<close>

lemma wf_new_engine: "wf_world new_engine"
  by (simp add: wf_world_def new_engine_def deref_def currentList_def)

lemma perform_wf: "wf_world w \<Longrightarrow> wf_world (perform c w)"
  by (cases c) (auto simp: wf_world_def currentList_def addToExclusionList_def
      removeFromExclusionList_def getExclusionList_def alloc_def deref_def Let_def
      split: option.splits)

lemma perform_currentList:
  "wf_world w \<Longrightarrow> currentList (perform c w) = listStep c (currentList w)"
  by (cases c) (auto simp: wf_world_def currentList_def addToExclusionList_def
      removeFromExclusionList_def getExclusionList_def alloc_def deref_def Let_def
      split: option.splits)

lemma run_wf: "wf_world w \<Longrightarrow> wf_world (run cs w)"
  by (induction cs arbitrary: w) (auto simp: perform_wf)

lemma run_currentList:
  "wf_world w \<Longrightarrow> currentList (run cs w) = fold listStep cs (currentList w)"
  by (induction cs arbitrary: w) (auto simp: perform_wf perform_currentList)

lemma fold_listStep_filter:
  "fold listStep (filter changesEngine cs) xs = fold listStep cs xs"
proof (induction cs arbitrary: xs)
  case Nil show ?case by simp
next
  case (Cons c cs) then show ?case by (cases c) auto
qed

lemma add_present_unchanged:
  "u \<in> set (currentList w) \<Longrightarrow> addToExclusionList u w = w"
  by (simp add: addToExclusionList_def currentList_def)

lemma get_returns_copy:
  assumes "wf_world w" and "getExclusionList w = (a, w')"
  shows "a \<noteq> exclusionList w'" and "deref w' a = currentList w"
    and "currentList w' = currentList w"
    and "currentList (w'\<lparr>cells := (cells w')(a \<mapsto> v)\<rparr>) = currentList w"
  using assms
  by (auto simp: wf_world_def currentList_def getExclusionList_def alloc_def deref_def)

text \<open>
  C10. Starting from a newly constructed engine and after any sequence of calls (the
  three public methods and in-place changes of arrays obtained from \<^verbatim>\<open>getExclusionList\<close>),
  the engine's exclusion list has no duplicates; adding a username that is present changes
  nothing, adding an absent one appends it, removing filters it out; \<^verbatim>\<open>getExclusionList\<close>
  returns a reference different from the engine's own, to an array with the same contents,
  and overwriting that array leaves the engine's list as it was. Hence the engine's list,
  and every query \<^verbatim>\<open>buildSmartQuery\<close> builds from it, is the same as if the calls to
  \<^verbatim>\<open>getExclusionList\<close> and the changes to the returned arrays had not happened.
\<close>

theorem exclusion_list_frame:
  fixes calls :: "engine_call list"
  defines "w \<equiv> run calls new_engine"
  shows "distinct (currentList w)
       \<and> (\<forall>u. u \<in> set (currentList w) \<longrightarrow> addToExclusionList u w = w)
       \<and> (\<forall>u. u \<notin> set (currentList w) \<longrightarrow>
              currentList (addToExclusionList u w) = currentList w @ [u])
       \<and> (\<forall>u. currentList (removeFromExclusionList u w)
              = filter (\<lambda>user. user \<noteq> u) (currentList w))
       \<and> fst (getExclusionList w) \<noteq> exclusionList (snd (getExclusionList w))
       \<and> deref (snd (getExclusionList w)) (fst (getExclusionList w)) = currentList w
       \<and> (\<forall>v. currentList ((snd (getExclusionList w))
                  \<lparr>cells := (cells (snd (getExclusionList w)))(fst (getExclusionList w) \<mapsto> v)\<rparr>)
              = currentList w)
       \<and> currentList w = currentList (run (filter changesEngine calls) new_engine)
       \<and> (\<forall>query filters.
             engineBuildSmartQuery w query (filters :: search_filters)
             = engineBuildSmartQuery (run (filter changesEngine calls) new_engine) query filters)"
proof -
  have wf: "wf_world w"
    unfolding w_def by (rule run_wf [OF wf_new_engine])
  have d: "distinct (currentList w)"
    using wf by (simp add: wf_world_def)
  have add1: "\<forall>u. u \<in> set (currentList w) \<longrightarrow> addToExclusionList u w = w"
    by (simp add: add_present_unchanged)
  have add2: "\<forall>u. u \<notin> set (currentList w) \<longrightarrow>
              currentList (addToExclusionList u w) = currentList w @ [u]"
    using perform_currentList [OF wf, of "AddToExclusionList _"] by simp
  have rem: "\<forall>u. currentList (removeFromExclusionList u w)
              = filter (\<lambda>user. user \<noteq> u) (currentList w)"
    using perform_currentList [OF wf, of "RemoveFromExclusionList _"] by simp
  obtain a w' where g: "getExclusionList w = (a, w')"
    by (cases "getExclusionList w")
  note copy = get_returns_copy [OF wf g]
  have same: "currentList w = currentList (run (filter changesEngine calls) new_engine)"
    unfolding w_def
    by (simp add: run_currentList [OF wf_new_engine] fold_listStep_filter)
  have q: "\<forall>query filters.
             engineBuildSmartQuery w query (filters :: search_filters)
             = engineBuildSmartQuery (run (filter changesEngine calls) new_engine) query filters"
    using same by (simp add: engineBuildSmartQuery_def currentList_def)
  show ?thesis
    using d add1 add2 rem copy same q by (simp add: g)
qed

theorem exclusion_list_frame_witness:
  "''octocat'' \<in> set (currentList (run [AddToExclusionList ''octocat'', GetExclusionList,
        MutateReturned 0 [''x'', ''x''], AddToExclusionList ''octocat''] new_engine))
   \<and> addToExclusionList ''octocat'' (run [AddToExclusionList ''octocat'', GetExclusionList,
        MutateReturned 0 [''x'', ''x''], AddToExclusionList ''octocat''] new_engine)
     = run [AddToExclusionList ''octocat'', GetExclusionList,
        MutateReturned 0 [''x'', ''x''], AddToExclusionList ''octocat''] new_engine
   \<and> ''torvalds'' \<notin> set (currentList (run [AddToExclusionList ''octocat'', GetExclusionList,
        MutateReturned 0 [''x'', ''x''], AddToExclusionList ''octocat''] new_engine))
   \<and> currentList (run [AddToExclusionList ''octocat'', GetExclusionList,
        MutateReturned 0 [''x'', ''x''], AddToExclusionList ''octocat''] new_engine)
     = [''Gzeu'', ''octocat'']
   \<and> deref (run [AddToExclusionList ''octocat'', GetExclusionList,
        MutateReturned 0 [''x'', ''x''], AddToExclusionList ''octocat''] new_engine) 1
     = [''x'', ''x'']"
  using exclusion_list_frame [of "[AddToExclusionList ''octocat'', GetExclusionList,
        MutateReturned 0 [''x'', ''x''], AddToExclusionList ''octocat'']"]
  by (simp add: new_engine_def addToExclusionList_def getExclusionList_def alloc_def
      deref_def currentList_def)

subsection \<open>Query builders\<close>

lemma day_offset: "(t - k * msPerDay) div msPerDay = t div msPerDay - k"
  by (simp add: msPerDay_def)

lemma isoDate_day: "t1 div msPerDay = t2 div msPerDay \<Longrightarrow> isoDate t1 = isoDate t2"
  by (simp add: isoDate_def)

lemma thresholds_same_day:
  assumes "t1 div msPerDay = t2 div msPerDay"
  shows "thresholds t1 b = thresholds t2 b"
proof -
  have "\<And>k. isoDate (t1 - k * msPerDay) = isoDate (t2 - k * msPerDay)"
    by (rule isoDate_day) (simp add: day_offset assms)
  from this [of 30] this [of 90] this [of 365] show ?thesis
    by (simp add: thresholds_def msPerDay_def split: activity_bucket.splits)
qed

text \<open>
  C2, as amended. The standard builder's output is determined by the query, the filters
  and the contents of the engine's exclusion list at the time of the call. The enhanced
  builder's output is determined by the query and the filters alone when the activity
  filter is unset; when it is set the output also depends on the clock, but only through
  the UTC day of the reading: two readings on the same day give the same string.
\<close>

theorem query_builders_deterministic:
  "(currentList w1 = currentList w2 \<longrightarrow>
      engineBuildSmartQuery w1 query filters = engineBuildSmartQuery w2 query filters)
   \<and> (f_activity g = None \<longrightarrow> buildEnhancedQuery t1 query g = buildEnhancedQuery t2 query g)
   \<and> (t3 div msPerDay = t4 div msPerDay \<longrightarrow>
        buildEnhancedQuery t3 query h = buildEnhancedQuery t4 query h)"
proof (intro conjI impI)
  assume "currentList w1 = currentList w2"
  then show "engineBuildSmartQuery w1 query filters = engineBuildSmartQuery w2 query filters"
    by (simp add: engineBuildSmartQuery_def currentList_def)
next
  assume "f_activity g = None"
  then show "buildEnhancedQuery t1 query g = buildEnhancedQuery t2 query g"
    by (simp add: buildEnhancedQuery_def)
next
  assume "t3 div msPerDay = t4 div msPerDay"
  then have eq: "thresholds t3 b = thresholds t4 b" for b
    by (rule thresholds_same_day)
  show "buildEnhancedQuery t3 query h = buildEnhancedQuery t4 query h"
    by (simp add: buildEnhancedQuery_def eq cong: if_cong option.case_cong)
qed

theorem query_builders_deterministic_witness:
  "currentList new_engine = currentList (run [GetExclusionList, MutateReturned 0 []] new_engine)
   \<and> engineBuildSmartQuery new_engine ''react'' emptyFilters
       = engineBuildSmartQuery (run [GetExclusionList, MutateReturned 0 []] new_engine) ''react'' emptyFilters
   \<and> f_activity (emptyFilters\<lparr>f_size := Some Small\<rparr>) = None
   \<and> buildEnhancedQuery 0 ''react'' (emptyFilters\<lparr>f_size := Some Small\<rparr>)
       = buildEnhancedQuery 1762041600000 ''react'' (emptyFilters\<lparr>f_size := Some Small\<rparr>)
   \<and> 1762041600000 div msPerDay = 1762041600999 div msPerDay
   \<and> buildEnhancedQuery 1762041600000 ''react'' (emptyFilters\<lparr>f_activity := Some Stale\<rparr>)
       = buildEnhancedQuery 1762041600999 ''react'' (emptyFilters\<lparr>f_activity := Some Stale\<rparr>)"
  using query_builders_deterministic [of new_engine "run [GetExclusionList, MutateReturned 0 []] new_engine"
      "''react''" emptyFilters "emptyFilters\<lparr>f_size := Some Small\<rparr>" 0 1762041600000
      1762041600000 1762041600999 "emptyFilters\<lparr>f_activity := Some Stale\<rparr>"]
  by (simp add: new_engine_def getExclusionList_def alloc_def deref_def currentList_def
      emptyFilters_def msPerDay_def)

text \<open>
  C2 as stated fails. With the activity filter set to \<^verbatim>\<open>active\<close>, the enhanced builder
  returns \<^verbatim>\<open>pushed:>2025-10-03\<close> at 2025-11-02T00:00Z and \<^verbatim>\<open>pushed:>2025-10-04\<close> one day
  later, for the same query and filters. The standard builder returns a different string
  for the same query and filters once \<^verbatim>\<open>addToExclusionList\<close> has been called.
\<close>

theorem query_builder_counterexample:
  "buildEnhancedQuery 1762041600000 ''react'' (emptyFilters\<lparr>f_activity := Some Active\<rparr>)
     \<noteq> buildEnhancedQuery 1762128000000 ''react'' (emptyFilters\<lparr>f_activity := Some Active\<rparr>)
   \<and> engineBuildSmartQuery new_engine ''react'' emptyFilters
     \<noteq> engineBuildSmartQuery (addToExclusionList ''octocat'' new_engine) ''react'' emptyFilters"
  by code_simp

subsection \<open>Rounding to double precision\<close>

lemma roundHalfEven_ge:
  assumes "of_int n \<le> q"
  shows "n \<le> roundHalfEven q"
proof -
  have "n \<le> \<lfloor>q\<rfloor>"
    using assms by (simp add: le_floor_iff)
  then show ?thesis
    by (auto simp: roundHalfEven_def Let_def)
qed

lemma roundHalfEven_le:
  assumes "q \<le> of_int n"
  shows "roundHalfEven q \<le> n"
proof (cases "\<lfloor>q\<rfloor> = n")
  case True
  then have "q = of_int n"
    using assms by (metis of_int_floor_le order_antisym)
  then show ?thesis
    by (simp add: roundHalfEven_def)
next
  case False
  have "\<lfloor>q\<rfloor> \<le> n"
    using assms by (simp add: floor_le_iff)
  with False have "\<lfloor>q\<rfloor> + 1 \<le> n" by simp
  then show ?thesis
    by (auto simp: roundHalfEven_def Let_def)
qed

lemma roundHalfEven_int: "roundHalfEven (of_int n) = n"
  by (simp add: roundHalfEven_def)

lemma rnd_nonneg: "0 \<le> x \<Longrightarrow> 0 \<le> rnd x"
  using roundHalfEven_ge [of 0 "x / 2 powr (of_int (binade x) - 52)"]
  by (simp add: rnd_def Let_def)

lemma binade_bounds:
  assumes "x \<noteq> 0"
  shows "2 powr of_int (binade x) \<le> \<bar>x\<bar>" and "\<bar>x\<bar> < 2 powr (of_int (binade x) + 1)"
proof -
  have p: "0 < \<bar>x\<bar>" using assms by simp
  have "of_int (binade x) \<le> log 2 \<bar>x\<bar>"
    by (simp add: binade_def)
  then show "2 powr of_int (binade x) \<le> \<bar>x\<bar>"
    using p by (simp add: le_log_iff)
  have "log 2 \<bar>x\<bar> < of_int (binade x) + 1"
    by (simp add: binade_def)
  then show "\<bar>x\<bar> < 2 powr (of_int (binade x) + 1)"
    using p by (simp add: log_less_iff)
qed

lemma binade_unique:
  assumes "2 powr of_int e \<le> \<bar>x\<bar>" and "\<bar>x\<bar> < 2 powr (of_int e + 1)"
  shows "binade x = e"
proof -
  have p: "0 < \<bar>x\<bar>"
    using assms(1) by (smt (verit) powr_gt_zero)
  have "of_int e \<le> log 2 \<bar>x\<bar>"
    using assms(1) p by (simp add: le_log_iff)
  moreover have "log 2 \<bar>x\<bar> < of_int e + 1"
    using assms(2) p by (simp add: log_less_iff)
  ultimately show ?thesis
    unfolding binade_def by (intro floor_unique) auto
qed

lemma rnd_ge_one:
  assumes "1 \<le> x"
  shows "1 \<le> rnd x"
proof -
  have x0: "x \<noteq> 0" using assms by simp
  let ?e = "binade x"
  let ?u = "(2::real) powr (of_int ?e - 52)"
  let ?r = "roundHalfEven (x / ?u)"
  have r: "rnd x = of_int ?r * ?u"
    using x0 by (simp add: rnd_def Let_def)
  have "0 \<le> log 2 \<bar>x\<bar>" using assms by simp
  then have e0: "0 \<le> ?e" by (simp add: binade_def)
  then have one: "(1::real) \<le> 2 powr of_int ?e"
    by (simp add: ge_one_powr_ge_zero)
  have split: "2 powr 52 * ?u = 2 powr of_int ?e"
    by (subst powr_add [symmetric]) simp
  have "2 powr of_int ?e \<le> x"
    using binade_bounds(1) [OF x0] assms by simp
  then have "2 powr 52 * ?u \<le> x"
    by (simp only: split)
  then have q: "(2::real) powr 52 \<le> x / ?u"
    by (simp add: pos_le_divide_eq)
  have i: "(2::real) powr 52 = of_int (2 ^ 52)"
    by (simp add: powr_numeral)
  have "2 ^ 52 \<le> ?r"
    using q unfolding i by (rule roundHalfEven_ge)
  then have "real_of_int (2 ^ 52) \<le> of_int ?r"
    by (simp only: of_int_le_iff)
  then have "(2::real) powr 52 \<le> of_int ?r"
    by (simp only: i)
  then have "2 powr 52 * ?u \<le> of_int ?r * ?u"
    by (rule mult_right_mono) simp
  then have "2 powr of_int ?e \<le> rnd x"
    by (simp only: split r)
  with one show ?thesis by linarith
qed

text \<open>A multiple of a power of two with a significand of at most 53 bits is a double.\<close>

lemma rnd_scaled:
  assumes "\<bar>m\<bar> \<le> 2 ^ 53"
  shows "rnd (of_int m * 2 powr of_int e) = of_int m * 2 powr of_int e"
proof (cases "m = 0")
  case True
  then show ?thesis by (simp add: rnd_def)
next
  case False
  let ?m = "real_of_int m"
  let ?y = "?m * 2 powr of_int e"
  define k where "k = binade ?m"
  have m0: "?m \<noteq> 0" using False by simp
  have y0: "?y \<noteq> 0" using False by simp
  have lo: "2 powr of_int k \<le> \<bar>?m\<bar>" and hi: "\<bar>?m\<bar> < 2 powr (of_int k + 1)"
    unfolding k_def by (rule binade_bounds [OF m0])+
  have "1 \<le> \<bar>?m\<bar>" using False by (simp flip: of_int_abs)
  then have "0 \<le> log 2 \<bar>?m\<bar>" by simp
  then have k0: "0 \<le> k" by (simp add: k_def binade_def)
  have m53: "\<bar>?m\<bar> \<le> 2 powr 53"
  proof -
    have "\<bar>?m\<bar> \<le> 2 ^ 53"
      using assms by (metis of_int_abs of_int_le_iff of_int_numeral of_int_power)
    then show ?thesis by (simp add: powr_numeral)
  qed
  have "2 powr of_int k \<le> (2::real) powr 53"
    using lo m53 by (rule order_trans)
  moreover have two: "(1::real) < 2" by simp
  ultimately have "real_of_int k \<le> 53"
    by (simp only: powr_le_cancel_iff [OF two])
  then have k53: "k \<le> 53" by simp
  have ay: "\<bar>?y\<bar> = \<bar>?m\<bar> * 2 powr of_int e"
    by (simp add: abs_mult)
  have "2 powr of_int k * 2 powr of_int e \<le> \<bar>?y\<bar>"
    unfolding ay using lo by (rule mult_right_mono) simp
  then have ylo: "2 powr of_int (k + e) \<le> \<bar>?y\<bar>"
    by (simp add: powr_add)
  have "\<bar>?y\<bar> < 2 powr (of_int k + 1) * 2 powr of_int e"
    unfolding ay using hi by (rule mult_strict_right_mono) simp
  then have yhi: "\<bar>?y\<bar> < 2 powr (of_int (k + e) + 1)"
    by (simp add: powr_add mult_ac)
  have bin: "binade ?y = k + e"
    by (rule binade_unique [OF ylo yhi])
  define u where "u = (2::real) powr (of_int (k + e) - 52)"
  have upos: "0 < u" by (simp add: u_def)
  have r: "rnd ?y = of_int (roundHalfEven (?y / u)) * u"
    using y0 by (simp add: rnd_def Let_def bin u_def)
  have q: "?y / u = ?m * 2 powr (52 - of_int k)"
  proof -
    have "2 powr of_int e / u = 2 powr (of_int e - (of_int (k + e) - 52))"
      unfolding u_def by (rule powr_diff [symmetric])
    also have "of_int e - (real_of_int (k + e) - 52) = 52 - of_int k"
      by simp
    finally have d: "2 powr of_int e / u = 2 powr (52 - real_of_int k)" .
    have "?y / u = ?m * (2 powr of_int e / u)"
      by simp
    then show ?thesis
      by (simp only: d)
  qed
  show ?thesis
  proof (cases "k \<le> 52")
    case True
    define n where "n = nat (52 - k)"
    have "52 - real_of_int k = real n"
      using True by (simp add: n_def)
    then have "(2::real) powr (52 - of_int k) = 2 ^ n"
      by (simp add: powr_realpow)
    then have "?y / u = of_int (m * 2 ^ n)"
      by (simp add: q)
    then have "roundHalfEven (?y / u) = m * 2 ^ n"
      by (simp only: roundHalfEven_int)
    then have "rnd ?y = of_int (m * 2 ^ n) * u"
      by (simp only: r)
    also have "\<dots> = (?y / u) * u"
      using \<open>?y / u = of_int (m * 2 ^ n)\<close> by simp
    also have "\<dots> = ?y"
      using upos by simp
    finally show ?thesis .
  next
    case False
    with k53 have k: "k = 53" by simp
    have "(2::real) powr 53 \<le> \<bar>?m\<bar>"
      using lo by (simp add: k)
    with m53 have "\<bar>?m\<bar> = 2 powr 53" by simp
    then have "\<bar>?m\<bar> = 2 ^ 53" by (simp add: powr_numeral)
    then have "\<bar>m\<bar> = 2 ^ 53"
      by (metis of_int_abs of_int_eq_iff of_int_numeral of_int_power)
    moreover have "(2::int) dvd 2 ^ 53"
      by simp
    ultimately have "2 dvd \<bar>m\<bar>"
      by (simp only:)
    then have "2 dvd m"
      by simp
    then have ev: "m = 2 * (m div 2)"
      by simp
    have "(2::real) powr (52 - of_int k) = 1 / 2"
      by (simp add: k powr_minus)
    then have "?y / u = ?m / 2"
      by (simp add: q)
    also have "\<dots> = of_int (m div 2)"
      by (subst ev) simp
    finally have h: "?y / u = of_int (m div 2)" .
    then have "roundHalfEven (?y / u) = m div 2"
      by (simp only: roundHalfEven_int)
    then have "rnd ?y = of_int (m div 2) * u"
      by (simp only: r)
    also have "\<dots> = (?y / u) * u"
      by (simp only: h)
    also have "\<dots> = ?y"
      using upos by simp
    finally show ?thesis .
  qed
qed

lemma rnd_int:
  assumes "\<bar>n\<bar> \<le> 2 ^ 53"
  shows "rnd (of_int n) = of_int n"
  using rnd_scaled [OF assms, of 0] by simp

text \<open>Rounding returns a double, so rounding again changes nothing.\<close>

lemma rnd_rnd: "rnd (rnd x) = rnd x"
proof (cases "x = 0")
  case True
  then show ?thesis by (simp add: rnd_def)
next
  case False
  define e where "e = binade x"
  define u where "u = (2::real) powr (of_int e - 52)"
  define M where "M = roundHalfEven (x / u)"
  have upos: "0 < u" by (simp add: u_def)
  have r: "rnd x = of_int M * 2 powr of_int (e - 52)"
    using False by (simp add: rnd_def Let_def M_def u_def e_def)
  have "\<bar>x\<bar> < 2 powr (of_int e + 1)"
    unfolding e_def by (rule binade_bounds(2) [OF False])
  then have "\<bar>x\<bar> / u < 2 powr (of_int e + 1) / u"
    using upos by (simp add: divide_strict_right_mono)
  also have "2 powr (of_int e + 1) / u = 2 powr (of_int e + 1 - (of_int e - 52))"
    unfolding u_def by (rule powr_diff [symmetric])
  also have "of_int e + 1 - (real_of_int e - 52) = 53"
    by simp
  finally have b: "\<bar>x / u\<bar> < 2 powr 53"
    using upos by simp
  have i: "(2::real) powr 53 = of_int (2 ^ 53)"
    by (simp add: powr_numeral)
  have "x / u \<le> of_int (2 ^ 53)"
    using b unfolding i by linarith
  then have up: "M \<le> 2 ^ 53"
    unfolding M_def by (rule roundHalfEven_le)
  have "of_int (- (2 ^ 53)) \<le> x / u"
    using b unfolding i by (simp only: of_int_minus)
  then have "- (2 ^ 53) \<le> M"
    unfolding M_def by (rule roundHalfEven_ge)
  with up have "\<bar>M\<bar> \<le> 2 ^ 53" by linarith
  then show ?thesis
    unfolding r by (rule rnd_scaled)
qed

lemma fadd_zero_left: "fadd 0 (rnd x) = rnd x"
  by (simp add: fadd_def rnd_rnd)

lemma fadd_nonneg: "0 \<le> x \<Longrightarrow> 0 \<le> y \<Longrightarrow> 0 \<le> fadd x y"
  by (simp add: fadd_def rnd_nonneg)

lemma fmul_nonneg: "0 \<le> x \<Longrightarrow> 0 \<le> y \<Longrightarrow> 0 \<le> fmul x y"
  by (simp add: fmul_def rnd_nonneg)

lemma fmul_commute: "fmul x y = fmul y x"
  by (simp add: fmul_def mult.commute)

lemma toNumber_nonneg: "0 \<le> toNumber n"
  by (simp add: toNumber_def rnd_nonneg)

lemma count_plus_one: "1 \<le> fadd (toNumber n) 1"
  unfolding fadd_def by (rule rnd_ge_one) (use toNumber_nonneg [of n] in simp)

text \<open>Evaluating a rounding, given the binade.\<close>

lemma rnd_eval_pos:
  assumes "2 ^ k \<le> \<bar>x\<bar>" and "\<bar>x\<bar> < 2 * 2 ^ k"
  shows "rnd x = of_int (roundHalfEven (x * 2 ^ 52 / 2 ^ k)) * 2 ^ k / 2 ^ 52"
proof -
  define u where "u = (2::real) powr (real k - 52)"
  have b: "binade x = int k"
    by (rule binade_unique) (use assms in \<open>simp_all add: powr_realpow powr_add\<close>)
  have x0: "x \<noteq> 0"
  proof
    assume "x = 0"
    with assms(1) have le: "(2::real) ^ k \<le> 0" by simp
    have "(0::real) < 2 ^ k" by simp
    with le show False by linarith
  qed
  have "u = 2 powr real k / 2 powr 52"
    unfolding u_def by (rule powr_diff)
  then have u: "u = 2 ^ k / 2 ^ 52"
    by (simp add: powr_realpow powr_numeral)
  have "rnd x = of_int (roundHalfEven (x / u)) * u"
    using x0 by (simp add: rnd_def Let_def b u_def)
  then show ?thesis
    by (simp add: u)
qed

lemma rnd_eval_neg:
  assumes "1 \<le> \<bar>x\<bar> * 2 ^ k" and "\<bar>x\<bar> * 2 ^ k < 2"
  shows "rnd x = of_int (roundHalfEven (x * 2 ^ (52 + k))) / 2 ^ (52 + k)"
proof -
  define u where "u = (2::real) powr (real_of_int (- int k) - 52)"
  have "1 / 2 ^ k \<le> \<bar>x\<bar>"
    using assms(1) by (simp add: pos_divide_le_eq)
  moreover have "2 powr real_of_int (- int k) = 1 / (2::real) ^ k"
    by (simp add: powr_minus powr_realpow divide_inverse)
  ultimately have a: "2 powr of_int (- int k) \<le> \<bar>x\<bar>"
    by simp
  have "\<bar>x\<bar> < 2 / 2 ^ k"
    using assms(2) by (simp add: pos_less_divide_eq)
  moreover have "2 powr (of_int (- int k) + 1) = (2::real) / 2 ^ k"
  proof -
    have "real_of_int (- int k) + 1 = 1 - real k" by simp
    moreover have "(2::real) powr (1 - real k) = 2 powr 1 / 2 powr real k"
      by (rule powr_diff)
    ultimately show ?thesis by (simp add: powr_realpow)
  qed
  ultimately have b: "\<bar>x\<bar> < 2 powr (of_int (- int k) + 1)"
    by simp
  have e: "binade x = - int k"
    by (rule binade_unique [OF a b])
  have x0: "x \<noteq> 0" using assms(1) by auto
  have "real_of_int (- int k) - 52 = - real (52 + k)" by simp
  then have "u = 2 powr (- real (52 + k))"
    by (simp only: u_def)
  then have u: "u = 1 / 2 ^ (52 + k)"
    by (simp only: powr_minus powr_realpow [OF zero_less_numeral] divide_inverse mult_1)
  have "rnd x = of_int (roundHalfEven (x / u)) * u"
    using x0 by (simp add: rnd_def Let_def e u_def)
  then show ?thesis
    by (simp add: u)
qed

subsection \<open>Quality score\<close>

lemma rnd_zero: "rnd 0 = 0"
  by (simp add: rnd_def)

lemma rnd_one: "rnd 1 = 1"
  using rnd_int [of 1] by simp

lemma rnd_numeral: "(numeral n :: int) \<le> 2 ^ 53 \<Longrightarrow> rnd (numeral n) = numeral n"
  using rnd_int [of "numeral n"] by simp

lemma log10_thousand: "log 10 1000 = 3"
proof -
  have h: "(10::real) ^ 3 = 1000" by simp
  have "log 10 ((10::real) ^ 3) = real 3"
    by (rule log_pow_cancel) simp_all
  then show ?thesis
    by (simp only: h)
qed

text \<open>
  The roundings that occur in the scores of the two example records: the weights, and
  each product, quotient, difference and sum on the way.
\<close>

lemma rnd_step_1: "rnd (3 / 10) = 5404319552844595 / 18014398509481984"
  by (subst rnd_eval_neg [where k = 2]) (simp_all add: roundHalfEven_def)

lemma rnd_step_2: "rnd (1 / 5) = 3602879701896397 / 18014398509481984"
  by (subst rnd_eval_neg [where k = 3]) (simp_all add: roundHalfEven_def)

lemma rnd_step_3: "rnd (1 / 10) = 3602879701896397 / 36028797018963968"
  by (subst rnd_eval_neg [where k = 4]) (simp_all add: roundHalfEven_def)

lemma rnd_step_4: "rnd (81064793292668925 / 9007199254740992) = 9"
  by (subst rnd_eval_pos [where k = 3]) (simp_all add: roundHalfEven_def)

lemma rnd_step_5: "rnd (297 / 4) = 297 / 4"
  by (subst rnd_eval_pos [where k = 6]) (simp_all add: roundHalfEven_def)

lemma rnd_step_6: "rnd (99 / 40) = 5573204538870989 / 2251799813685248"
  by (subst rnd_eval_pos [where k = 1]) (simp_all add: roundHalfEven_def)

lemma rnd_step_7: "rnd (39462791734833971 / 2251799813685248) = 2466424483427123 / 140737488355328"
  by (subst rnd_eval_pos [where k = 4]) (simp_all add: roundHalfEven_def)

lemma rnd_step_8: "rnd (8886230707599887877200845775831 / 2535301200456458802993406410752) = 3946279173483397 / 1125899906842624"
  by (subst rnd_eval_pos [where k = 1]) (simp_all add: roundHalfEven_def)

lemma rnd_step_9: "rnd (14079378335067013 / 1125899906842624) = 3519844583766753 / 281474976710656"
  by (subst rnd_eval_pos [where k = 3]) (simp_all add: roundHalfEven_def)

lemma rnd_step_10: "rnd (3519844583766753 / 281474976710656) = 3519844583766753 / 281474976710656"
  by (subst rnd_eval_pos [where k = 3]) (simp_all add: roundHalfEven_def)

lemma rnd_step_11: "rnd (1 / 1000) = 1152921504606847 / 1152921504606846976"
  by (subst rnd_eval_neg [where k = 10]) (simp_all add: roundHalfEven_def)

lemma rnd_step_12: "rnd (28823037615171175 / 576460752303423488) = 3602879701896397 / 72057594037927936"
  by (subst rnd_eval_neg [where k = 5]) (simp_all add: roundHalfEven_def)

lemma rnd_step_13: "rnd (716973060677382963 / 72057594037927936) = 2800676018271027 / 281474976710656"
  by (subst rnd_eval_pos [where k = 3]) (simp_all add: roundHalfEven_def)

lemma rnd_step_14: "rnd (10090498777816705875473020789719 / 10141204801825835211973625643008) = 8962163258467287 / 9007199254740992"
  by (subst rnd_eval_neg [where k = 1]) (simp_all add: roundHalfEven_def)

lemma rnd_step_15: "rnd (121597189939003383 / 9007199254740992) = 7599824371187711 / 562949953421312"
  by (subst rnd_eval_pos [where k = 3]) (simp_all add: roundHalfEven_def)

lemma rnd_step_16: "rnd (18014398509481985 / 4503599627370496) = 4"
  by (subst rnd_eval_pos [where k = 2]) (simp_all add: roundHalfEven_def)

lemma rnd_step_17: "rnd (18014398509481985 / 18014398509481984) = 1"
  by (subst rnd_eval_pos [where k = 0]) (simp_all add: roundHalfEven_def)

lemmas rnd_steps = rnd_step_1 rnd_step_2 rnd_step_3 rnd_step_4 rnd_step_5 rnd_step_6 rnd_step_7 rnd_step_8 rnd_step_9 rnd_step_10 rnd_step_11 rnd_step_12 rnd_step_13 rnd_step_14 rnd_step_15 rnd_step_16 rnd_step_17


lemma round_clamp: "0 \<le> x \<Longrightarrow> 0 \<le> round (min x 100) \<and> round (min x (100::real)) \<le> 100"
proof
  assume x: "0 \<le> x"
  have "round (0::real) \<le> round (min x 100)" by (rule round_mono) (use x in simp)
  then show "0 \<le> round (min x 100)" by simp
  have "round (min x 100) \<le> round (100::real)" by (rule round_mono) simp
  then show "round (min x 100) \<le> 100" by simp
qed

lemma score_refines:
  "calculateQualityScore lg now repo =
     specDoubleScore lg (item_stargazers_count repo) (item_forks_count repo)
       (daysSinceUpdateDouble now repo) (descriptionLength repo) (hasTopics repo)
       (item_open_issues_count repo)"
proof -
  have r: "(case item_description repo of Some d \<Rightarrow> jsLength d > 50 | None \<Rightarrow> False)
           = (descriptionLength repo > 50)"
    by (simp add: descriptionLength_def split: option.splits)
  have t: "(case item_topics repo of Some ts \<Rightarrow> length ts > 0 | None \<Rightarrow> False) = hasTopics repo"
    by (simp add: hasTopics_def split: option.splits)
  have d: "fdiv (fsub (of_int now) (of_int (item_updated_at repo))) (1000 * 60 * 60 * 24)
           = daysSinceUpdateDouble now repo"
    by (simp add: daysSinceUpdateDouble_def)
  have w: "w_stars qualityWeights = rnd (3 / 10)" "w_forks qualityWeights = rnd (2 / 10)"
    "w_updates qualityWeights = rnd (2 / 10)" "w_documentation qualityWeights = rnd (2 / 10)"
    "w_issues qualityWeights = rnd (1 / 10)"
    by (simp_all add: qualityWeights_def)
  have z: "fadd 0 (fmul x y) = fmul y x" for x y
    unfolding fmul_def by (simp only: fadd_zero_left mult.commute)
  show ?thesis
    unfolding calculateQualityScore_def specDoubleScore_def Let_def r t d w z
    by (simp only: fmul_commute [of "rnd (2 / 10)"] fmul_commute [of "rnd (1 / 10)"])
qed

lemma specDoubleScore_range:
  assumes "\<forall>x. 1 \<le> x \<longrightarrow> 0 \<le> lg x"
  shows "0 \<le> specDoubleScore lg s f d l t i \<and> specDoubleScore lg s f d l t i \<le> 100"
proof -
  have lg: "0 \<le> lg (fadd (toNumber n) 1)" for n
    using assms count_plus_one by blast
  have w: "0 \<le> rnd (3 / 10)" "0 \<le> rnd (2 / 10)" "0 \<le> rnd (1 / 10)"
    by (simp_all add: rnd_nonneg)
  have a: "0 \<le> fmul (rnd (3 / 10)) (min (fmul (lg (fadd (toNumber s) 1)) 10) 30)"
    by (intro fmul_nonneg w) (simp add: fmul_nonneg lg)
  have b: "0 \<le> fmul (rnd (2 / 10)) (min (fmul (lg (fadd (toNumber f) 1)) 10) 20)"
    by (intro fmul_nonneg w) (simp add: fmul_nonneg lg)
  have c: "0 \<le> fmul (rnd (2 / 10)) (max (fsub 20 (fdiv d 30)) 0)"
    by (intro fmul_nonneg w) simp
  have e: "0 \<le> fmul (rnd (2 / 10)) (fadd (if l > 50 then 15 else 0) (if t then 5 else 0))"
    by (intro fmul_nonneg fadd_nonneg w) simp_all
  have g: "0 \<le> fmul (rnd (1 / 10))
             (max (fsub 10 (fmul (fdiv (toNumber i) (fadd (toNumber s) 1)) 50)) 0)"
    by (intro fmul_nonneg w) simp
  show ?thesis
    unfolding specDoubleScore_def
    by (rule round_clamp) (intro fadd_nonneg a b c e g)
qed

lemma correctlyRoundedLog10_nonneg: "\<forall>x. 1 \<le> x \<longrightarrow> 0 \<le> correctlyRoundedLog10 x"
  by (simp add: correctlyRoundedLog10_def rnd_nonneg)

lemma bare_standard_score: "calculateQualityScore correctlyRoundedLog10 1762041600000 bareItem = 5"
  by (simp add: calculateQualityScore_def bareItem_def qualityWeights_def Let_def
      correctlyRoundedLog10_def toNumber_def fadd_def fsub_def fmul_def fdiv_def
      rnd_zero rnd_one rnd_numeral rnd_steps round_def)

lemma boundary_standard_score:
  "calculateQualityScore correctlyRoundedLog10 1762041600000 boundaryItem = 13"
  by (simp add: calculateQualityScore_def boundaryItem_def bareItem_def qualityWeights_def Let_def
      correctlyRoundedLog10_def toNumber_def fadd_def fsub_def fmul_def fdiv_def
      rnd_zero rnd_one rnd_numeral rnd_steps log10_thousand round_def)

lemma boundary_exact_score:
  "specStandardScore (item_stargazers_count boundaryItem) (item_forks_count boundaryItem)
     (daysSinceUpdate 1762041600000 boundaryItem) (descriptionLength boundaryItem)
     (hasTopics boundaryItem) (item_open_issues_count boundaryItem) = 14"
  by (simp add: specStandardScore_def boundaryItem_def bareItem_def daysSinceUpdate_def
      descriptionLength_def hasTopics_def log10_thousand round_def)

text \<open>
  C1, as amended. For every repository record and clock reading, and every \<^verbatim>\<open>Math.log10\<close>
  that is not negative from 1 on, the standard quality score is the specification's
  formula carried out in double precision, every operation rounded to the nearest double,
  applied to the record's stars, forks, days since the last update, description length,
  presence of topics and open issues; it is an integer between 0 and 100; and the
  arguments of the logarithms and the denominator \<open>stars + 1\<close> are at least 1, so nothing
  is divided by zero when the counts are zero.
\<close>

theorem standard_quality_score:
  assumes "\<forall>x. 1 \<le> x \<longrightarrow> 0 \<le> lg x"
  shows "calculateQualityScore lg now repo =
     specDoubleScore lg (item_stargazers_count repo) (item_forks_count repo)
       (daysSinceUpdateDouble now repo) (descriptionLength repo) (hasTopics repo)
       (item_open_issues_count repo)
   \<and> 0 \<le> calculateQualityScore lg now repo \<and> calculateQualityScore lg now repo \<le> 100
   \<and> 1 \<le> fadd (toNumber (item_stargazers_count repo)) 1
   \<and> 1 \<le> fadd (toNumber (item_forks_count repo)) 1"
  using specDoubleScore_range [OF assms] count_plus_one
  by (simp add: score_refines)

theorem standard_quality_score_witness:
  "calculateQualityScore correctlyRoundedLog10 1762041600000 bareItem = 5
   \<and> specDoubleScore correctlyRoundedLog10 (item_stargazers_count bareItem)
       (item_forks_count bareItem) (daysSinceUpdateDouble 1762041600000 bareItem)
       (descriptionLength bareItem) (hasTopics bareItem) (item_open_issues_count bareItem) = 5
   \<and> item_stargazers_count bareItem = 0 \<and> item_forks_count bareItem = 0
   \<and> item_open_issues_count bareItem = 0
   \<and> fadd (toNumber (item_stargazers_count bareItem)) 1 = 1"
proof -
  note th = standard_quality_score [OF correctlyRoundedLog10_nonneg, of 1762041600000 bareItem]
  have "specDoubleScore correctlyRoundedLog10 (item_stargazers_count bareItem)
       (item_forks_count bareItem) (daysSinceUpdateDouble 1762041600000 bareItem)
       (descriptionLength bareItem) (hasTopics bareItem) (item_open_issues_count bareItem) = 5"
    using conjunct1 [OF th] bare_standard_score by simp
  moreover have "fadd (toNumber (item_stargazers_count bareItem)) 1 = 1"
    by (simp add: bareItem_def toNumber_def fadd_def rnd_zero rnd_one)
  ultimately show ?thesis
    using bare_standard_score by (simp add: bareItem_def)
qed

text \<open>
  C1 as stated fails: the score is not always the formula's value over the real numbers.
  For 999 stars, no forks, one open issue, no description, no topics and a last update
  74.25 days ago, the formula gives 9 + 0 + 3.505 + 0 + 0.995 = 13.5, which rounds to 14.
  The source adds the same terms in doubles and gets 13.499999999999998 (with a
  \<^verbatim>\<open>Math.log10\<close> that returns 3 at 1000), which rounds to 13.
\<close>

theorem standard_quality_score_counterexample:
  "calculateQualityScore correctlyRoundedLog10 1762041600000 boundaryItem = 13
   \<and> specStandardScore (item_stargazers_count boundaryItem) (item_forks_count boundaryItem)
       (daysSinceUpdate 1762041600000 boundaryItem) (descriptionLength boundaryItem)
       (hasTopics boundaryItem) (item_open_issues_count boundaryItem) = 14
   \<and> item_stargazers_count boundaryItem = 999 \<and> item_forks_count boundaryItem = 0
   \<and> item_open_issues_count boundaryItem = 1
   \<and> daysSinceUpdate 1762041600000 boundaryItem = 297 / 4
   \<and> correctlyRoundedLog10 1000 = 3"
  using boundary_standard_score boundary_exact_score
  by (simp add: boundaryItem_def bareItem_def daysSinceUpdate_def correctlyRoundedLog10_def
      log10_thousand rnd_numeral)

subsection \<open>Rate limiter\<close>

text \<open>
  A call that runs alone, entered when the clock is not behind the last stored timestamp,
  stores a timestamp at least 100 ms after the previous one and leaves \<open>remaining\<close> one
  below its value after the optional reset to 5000.
\<close>

lemma waitIfNeeded_alone:
  assumes "lastRequestTime st \<le> clock"
  shows "lastRequestTime st + 100 \<le> lastRequestTime (waitIfNeeded clock lq ls st)
       \<and> remaining (waitIfNeeded clock lq ls st)
           = (if clock > resetTime st then 5000 else remaining st) - 1"
  using assms
  by (auto simp: waitIfNeeded_def spacingPhase_def recordRequest_def Let_def max_def
      split: if_splits)

text \<open>
  C8 fails when two calls overlap. A first call completes at 2025-11-02T00:00:00.000Z.
  Two further calls are entered 10 ms later, before either has finished: both read the
  same \<^verbatim>\<open>lastRequestTime\<close>, both set a 90 ms timer, and when the timers fire both store the
  same timestamp. The two completed calls have timestamps 0 ms apart, not 100.
\<close>

theorem overlapping_calls_same_stamp:
  "runSchedule [(1762041600010, 0), (1762041600010, 1), (1762041600100, 0), (1762041600100, 1)]
     ([Start, Start], waitIfNeeded 1762041600000 0 0 newRateLimitManager)
   = ([Completed 1762041600100, Completed 1762041600100],
      \<lparr>lastRequestTime = 1762041600100, requestCount = 2, resetTime = 0, remaining = 4998\<rparr>)"
  by (simp add: waitIfNeeded_def spacingPhase_def recordRequest_def newRateLimitManager_def Let_def)

subsection \<open>Search results and the result cache\<close>

lemma bare_enhanced_score:
  "calculateEnhancedQualityScore correctlyRoundedLog10 1762041600000 bareItem [] ([]::unit list) = 30"
  by (simp add: calculateEnhancedQualityScore_def bareItem_def Let_def
      correctlyRoundedLog10_def toNumber_def fadd_def fsub_def fmul_def fdiv_def
      rnd_zero rnd_one rnd_numeral round_def)

lemma allOrNothing_map_Some: "allOrNothing (map Some xs) = Some xs"
  by (induction xs) auto

lemma allOrNothing_replicate: "allOrNothing (replicate n (Some x)) = Some (replicate n x)"
  by (induction n) auto

lemma allOrNothing_length: "allOrNothing xs = Some ys \<Longrightarrow> length ys = length xs"
proof (induction xs arbitrary: ys)
  case Nil then show ?case by simp
next
  case (Cons x xs) then show ?case by (cases x) (auto split: option.splits)
qed

lemma bare_enriched:
  "enhancedEnrichRepository fullPageOutside 1762041600000 bareItem = Some r
   \<Longrightarrow> qualityScore r = Some 30"
  using bare_enhanced_score
  by (auto simp: enhancedEnrichRepository_def getRepositoryLanguages_def getTopContributors_def
      fullPageOutside_def Let_def bareItem_def)

lemma bare_enriched_some:
  "\<exists>r. enhancedEnrichRepository fullPageOutside 1762041600000 bareItem = Some r \<and> qualityScore r = Some 30"
  using bare_enhanced_score
  by (simp add: enhancedEnrichRepository_def getRepositoryLanguages_def getTopContributors_def
      fullPageOutside_def Let_def bareItem_def)

lemma full_page_enrichment:
  "\<exists>rs. enhancedEnrichment fullPageOutside (replicate 50 bareItem) = Some rs
        \<and> length rs = 50 \<and> (\<forall>r \<in> set rs. qualityScore r = Some 30)"
proof -
  obtain r where r: "enhancedEnrichRepository fullPageOutside 1762041600000 bareItem = Some r"
    and q: "qualityScore r = Some 30"
    using bare_enriched_some by blast
  have ts: "tScore fullPageOutside i = 1762041600000" for i
    by (simp add: fullPageOutside_def)
  have "map (\<lambda>(i, repo). enhancedEnrichRepository fullPageOutside (tScore fullPageOutside i) repo)
          (enumerate 0 (replicate 50 bareItem)) = map Some (replicate 50 r)"
    by (rule nth_equalityI) (simp_all add: nth_enumerate_eq r ts)
  then have "enhancedEnrichment fullPageOutside (replicate 50 bareItem) = Some (replicate 50 r)"
    by (simp add: enhancedEnrichment_def allOrNothing_replicate)
  then show ?thesis using q by simp
qed

lemma searchRepositories_hasMore:
  assumes "searchRepositories out w query filters page = Inr r"
  shows "\<exists>response. searchRepos out (standardSearchRequest w query filters page) = Some response
           \<and> hasMore r = (length (resp_items response) = 30)
           \<and> nextPage r = (if hasMore r then Some (page + 1) else None)"
  using assms
  by (auto simp: searchRepositories_def Let_def split: option.splits)

lemma applyAdvancedFilters_unset:
  "f_codeQuality filters = None \<Longrightarrow> applyAdvancedFilters repos filters = repos"
  by (simp add: applyAdvancedFilters_def)

lemma enhancedSearchMiss_hasMore_unfiltered:
  assumes "f_codeQuality filters = None"
    and "enhancedSearchMiss out query filters page w = (Inr r, w')"
  shows "\<exists>response. searchRepos out (enhancedSearchRequest out query filters page) = Some response
           \<and> hasMore r = (length (resp_items response) = 50)
           \<and> nextPage r = (if hasMore r then Some (page + 1) else None)"
proof -
  obtain response enriched
    where s: "searchRepos out (enhancedSearchRequest out query filters page) = Some response"
      and e: "enhancedEnrichment out (resp_items response) = Some enriched"
    using assms(2)
    by (auto simp: enhancedSearchMiss_def Let_def split: option.splits)
  have l: "length enriched = length (resp_items response)"
    using allOrNothing_length [OF e [unfolded enhancedEnrichment_def]] by simp
  show ?thesis
    using assms s e l
    by (auto simp: enhancedSearchMiss_def Let_def applyAdvancedFilters_unset)
qed






text \<open>
  C3 fails for the enhanced search. The hosting API returns a full page of 50 items and
  reports 1000 matches; each item scores 30; the quality filter \<^verbatim>\<open>good\<close> (threshold 70)
  removes them all. The enhanced search computes \<^verbatim>\<open>hasMore\<close> from the filtered list, so it
  answers \<^verbatim>\<open>hasMore = false\<close> and no \<^verbatim>\<open>nextPage\<close>, although the external call returned
  exactly the requested page size. (The standard search, and the enhanced search without
  a quality filter, do follow the claim: \<open>searchRepositories_hasMore\<close> and
  \<open>enhancedSearchMiss_hasMore_unfiltered\<close>.)
\<close>

theorem enhanced_hasMore_after_filter:
  "searchRepos fullPageOutside
       (enhancedSearchRequest fullPageOutside ''react'' (emptyFilters\<lparr>f_codeQuality := Some Good\<rparr>) 1)
     = Some \<lparr>resp_items = replicate 50 bareItem, total_count = 1000\<rparr>
   \<and> length (replicate 50 bareItem) = 50
   \<and> fst (enhancedSearch fullPageOutside ''react'' (emptyFilters\<lparr>f_codeQuality := Some Good\<rparr>) 1
         newEnhancedGitHubAPI)
     = Inr \<lparr>repositories = [], totalCount = 1000, hasMore = False, nextPage = None\<rparr>"
proof -
  obtain rs where e: "enhancedEnrichment fullPageOutside (replicate 50 bareItem) = Some rs"
    and q: "\<forall>r \<in> set rs. qualityScore r = Some 30"
    using full_page_enrichment by blast
  have f: "applyAdvancedFilters rs (emptyFilters\<lparr>f_codeQuality := Some Good\<rparr>) = []"
    using q by (simp add: applyAdvancedFilters_def qualityThresholds_def emptyFilters_def)
  have s: "searchRepos fullPageOutside request = Some \<lparr>resp_items = replicate 50 bareItem, total_count = 1000\<rparr>"
    for request
    by (simp add: fullPageOutside_def)
  have c: "cache newEnhancedGitHubAPI k = None" for k
    by (simp add: newEnhancedGitHubAPI_def)
  show ?thesis
    by (simp add: enhancedSearch_def enhancedSearchMiss_def c s e f Let_def)
qed



subsection \<open>Project combination\<close>

lemma foldl_setAdd:
  "distinct acc \<Longrightarrow> distinct (foldl setAdd acc xs) \<and> set (foldl setAdd acc xs) = set acc \<union> set xs"
  by (induction xs arbitrary: acc) (auto simp: setAdd_def)

lemma newSet_distinct: "distinct (newSet xs)"
  using foldl_setAdd [of "[]" xs] by (simp add: newSet_def)

lemma newSet_set: "set (newSet xs) = set xs"
  using foldl_setAdd [of "[]" xs] by (simp add: newSet_def)

lemma nextjs_dependencies:
  assumes "detectFramework repo = ''nextjs''"
  shows "{''next'', ''react'', ''react-dom''} \<subseteq> set (extractDependencies repo)"
  using assms by (simp add: extractDependencies_def frameworkDependencies_def newSet_set Let_def)

lemma countFramework_same:
  "\<forall>f \<in> set fs. f = k \<Longrightarrow> foldl countFramework [(k, c)] fs = [(k, c + length fs)]"
  by (induction fs arbitrary: c) auto

lemma findDominantFramework_unanimous:
  assumes "fs \<noteq> []" and "\<forall>f \<in> set fs. f = k" and "k \<noteq> []"
  shows "findDominantFramework fs = k"
proof -
  obtain f fs' where fs: "fs = f # fs'"
    using assms(1) by (cases fs) auto
  with assms(2) have "f = k" and "\<forall>f \<in> set fs'. f = k"
    by auto
  then have "foldl countFramework [] fs = [(k, 1 + length fs')]"
    using countFramework_same [of fs' k 1] by (simp add: fs)
  then show ?thesis
    using assms(3) by (simp add: findDominantFramework_def)
qed

text \<open>
  C5. When the request names no target framework and each of its repositories, at least
  two, is detected as \<^verbatim>\<open>nextjs\<close>, the merge strategy \<^verbatim>\<open>combineProjects\<close> determines has
  target framework \<^verbatim>\<open>nextjs\<close>, and the result's dependency list contains \<^verbatim>\<open>next\<close>,
  \<^verbatim>\<open>react\<close> and \<^verbatim>\<open>react-dom\<close> and has no duplicates.
\<close>

theorem nextjs_combination:
  assumes "req_targetFramework request = None"
    and "2 \<le> length (req_repositories request)"
    and "\<forall>r \<in> set (req_repositories request). detectFramework r = ''nextjs''"
  shows "targetFramework (requestMergeStrategy request) = ''nextjs''
       \<and> {''next'', ''react'', ''react-dom''}
           \<subseteq> set (result_dependencies (fst (combineProjects now request combinations)))
       \<and> distinct (result_dependencies (fst (combineProjects now request combinations)))"
proof -
  let ?repos = "req_repositories request"
  have fw: "map (framework \<circ> analyzeRepository) ?repos = map detectFramework ?repos"
    by (simp add: analyzeRepository_def)
  have ne: "?repos \<noteq> []"
    using assms(2) by auto
  have "findDominantFramework (map detectFramework ?repos) = ''nextjs''"
    by (rule findDominantFramework_unanimous) (use ne assms(3) in auto)
  then have t: "targetFramework (requestMergeStrategy request) = ''nextjs''"
    using assms(1) by (simp add: requestMergeStrategy_def determineMergeStrategy_def fw)
  have deps: "result_dependencies (fst (combineProjects now request combinations))
              = newSet (concat (map extractDependencies ?repos))"
    by (simp add: combineProjects_def resolveDependencies_def Let_def analyzeRepository_def comp_def)
  obtain r where r: "r \<in> set ?repos"
    using ne by (cases ?repos) auto
  then have "{''next'', ''react'', ''react-dom''} \<subseteq> set (extractDependencies r)"
    using assms(3) nextjs_dependencies by blast
  then have "{''next'', ''react'', ''react-dom''} \<subseteq> set (concat (map extractDependencies ?repos))"
    using r by auto
  then show ?thesis
    using t by (simp add: deps newSet_set newSet_distinct)
qed

theorem nextjs_combination_witness:
  "req_targetFramework shopAndBlog = None
   \<and> 2 \<le> length (req_repositories shopAndBlog)
   \<and> req_repositories shopAndBlog = [shopRepo, blogRepo]
   \<and> detectFramework shopRepo = ''nextjs''
   \<and> detectFramework blogRepo = ''nextjs''
   \<and> targetFramework (requestMergeStrategy shopAndBlog) = ''nextjs''
   \<and> result_dependencies (fst (combineProjects 0 shopAndBlog Map.empty))
       = [''next'', ''react'', ''react-dom'', ''typescript'', ''stripe'', ''tailwindcss'']
   \<and> distinct (result_dependencies (fst (combineProjects 0 shopAndBlog Map.empty)))"
proof -
  have h1: "req_targetFramework shopAndBlog = None"
    by (simp add: shopAndBlog_def)
  have h2: "2 \<le> length (req_repositories shopAndBlog)"
    by (simp add: shopAndBlog_def)
  have r: "req_repositories shopAndBlog = [shopRepo, blogRepo]"
    by (simp add: shopAndBlog_def)
  have f: "detectFramework shopRepo = ''nextjs''" "detectFramework blogRepo = ''nextjs''"
    by code_simp+
  have h3: "\<forall>r \<in> set (req_repositories shopAndBlog). detectFramework r = ''nextjs''"
    by (simp add: r f)
  have d: "result_dependencies (fst (combineProjects 0 shopAndBlog Map.empty))
       = [''next'', ''react'', ''react-dom'', ''typescript'', ''stripe'', ''tailwindcss'']"
    by code_simp
  show ?thesis
    using h1 h2 r f d nextjs_combination [OF h1 h2 h3, of 0 Map.empty] by simp
qed

lemma map_insort_key: "map f (insort_key f x xs) = insort (f x) (map f xs)"
  by (induction xs) auto

lemma map_sort_key: "map f (sort_key f xs) = sort (map f xs)"
  by (induction xs) (auto simp: map_insort_key)

lemma sort_mset_cong: "mset xs = mset ys \<Longrightarrow> sort xs = sort ys"
  by (rule properties_for_sort) simp_all

lemma repoIds_permutation:
  assumes "mset (req_repositories request') = mset (req_repositories request)"
  shows "repoIds request' = repoIds request"
proof -
  have "mset (map (showInt \<circ> repo_id) (req_repositories request'))
        = mset (map (showInt \<circ> repo_id) (req_repositories request))"
    using assms by (metis mset_map)
  then have "sort (map (showInt \<circ> repo_id) (req_repositories request'))
        = sort (map (showInt \<circ> repo_id) (req_repositories request))"
    by (rule sort_mset_cong)
  then show ?thesis
    by (simp add: repoIds_def map_sort_key)
qed

text \<open>
  C7, as amended. Two calls of \<^verbatim>\<open>combineProjects\<close> with the same request, at any two clock readings
  and with any contents of the combinations map, give the same dependency list and the
  same scripts; each id is \<^verbatim>\<open>combo-\<close>, the clock reading, \<^verbatim>\<open>-\<close>, and a component that
  depends on the request alone. That component is the first 20 characters of the
  repositories' ids, sorted and joined with \<^verbatim>\<open>-\<close>; the order is that of \<^verbatim>\<open>sort()\<close>
  without a comparison function, which compares the ids' decimal renderings as strings.
  Requests whose repository lists are permutations of each other have the same component.
\<close>

theorem combination_idempotent:
  "result_dependencies (fst (combineProjects t1 request c1))
     = result_dependencies (fst (combineProjects t2 request c2))
   \<and> result_scripts (fst (combineProjects t1 request c1))
     = result_scripts (fst (combineProjects t2 request c2))
   \<and> result_id (fst (combineProjects t1 request c1))
     = ''combo-'' @ showInt t1 @ ''-'' @ take 20 (repoIds request)
   \<and> result_id (fst (combineProjects t2 request c2))
     = ''combo-'' @ showInt t2 @ ''-'' @ take 20 (repoIds request)
   \<and> repoIds request
     = join ''-'' (map showInt (sort_key showInt (map repo_id (req_repositories request))))
   \<and> sorted (map showInt (sort_key showInt (map repo_id (req_repositories request))))
   \<and> mset (sort_key showInt (map repo_id (req_repositories request)))
     = mset (map repo_id (req_repositories request))
   \<and> (mset (req_repositories request') = mset (req_repositories request)
        \<longrightarrow> repoIds request' = repoIds request)"
  using repoIds_permutation [of request' request]
  by (simp add: combineProjects_def generateCombinationId_def Let_def repoIds_def [symmetric])

theorem combination_idempotent_witness:
  "mset (req_repositories (shopAndBlog\<lparr>req_repositories := [blogRepo, shopRepo]\<rparr>))
     = mset (req_repositories shopAndBlog)
   \<and> repoIds (shopAndBlog\<lparr>req_repositories := [blogRepo, shopRepo]\<rparr>) = repoIds shopAndBlog
   \<and> repoIds shopAndBlog = ''10-9''
   \<and> result_id (fst (combineProjects 5 shopAndBlog Map.empty)) = ''combo-5-10-9''
   \<and> result_id (fst (combineProjects 7 (shopAndBlog\<lparr>req_repositories := [blogRepo, shopRepo]\<rparr>)
         Map.empty)) = ''combo-7-10-9''"
proof -
  have h: "mset (req_repositories (shopAndBlog\<lparr>req_repositories := [blogRepo, shopRepo]\<rparr>))
     = mset (req_repositories shopAndBlog)"
    by (simp add: shopAndBlog_def)
  have r: "repoIds shopAndBlog = ''10-9''"
    by code_simp
  have s: "showInt 5 = ''5''" "showInt 7 = ''7''"
    by code_simp+
  show ?thesis
    using h r s
      combination_idempotent [of 5 shopAndBlog Map.empty 7 Map.empty
        "shopAndBlog\<lparr>req_repositories := [blogRepo, shopRepo]\<rparr>"]
      combination_idempotent [of 7 "shopAndBlog\<lparr>req_repositories := [blogRepo, shopRepo]\<rparr>"
        Map.empty 7 Map.empty shopAndBlog]
    by simp
qed

text \<open>
  C7 as stated fails in one point: the component is not the ids sorted as numbers. For the
  repositories with ids 9 and 10 the source's \<^verbatim>\<open>sort()\<close> puts 10 first, because the string
  \<^verbatim>\<open>10\<close> is before the string \<^verbatim>\<open>9\<close>: the component is \<^verbatim>\<open>10-9\<close>, and the ids sorted and
  joined are \<^verbatim>\<open>9-10\<close>.
\<close>

theorem combination_id_order_counterexample:
  "map repo_id (req_repositories shopAndBlog) = [9, 10]
   \<and> sort (map repo_id (req_repositories shopAndBlog)) = [9, 10]
   \<and> sort_key showInt (map repo_id (req_repositories shopAndBlog)) = [10, 9]
   \<and> specRepoIds shopAndBlog = ''9-10''
   \<and> repoIds shopAndBlog = ''10-9''
   \<and> result_id (fst (combineProjects 5 shopAndBlog Map.empty)) = ''combo-5-10-9''"
proof -
  have a: "map repo_id (req_repositories shopAndBlog) = [9, 10]"
    by (simp add: shopAndBlog_def shopRepo_def blogRepo_def)
  have b: "sort [9, 10 :: int] = [9, 10]"
    by simp
  have c: "sort_key showInt [9, 10] = [10, 9]"
    by code_simp
  have d: "specRepoIds shopAndBlog = ''9-10''"
    by code_simp
  have e: "repoIds shopAndBlog = ''10-9''"
    by code_simp
  have f: "showInt 5 = ''5''"
    by code_simp
  have g: "result_id (fst (combineProjects 5 shopAndBlog Map.empty)) = ''combo-5-10-9''"
    by (simp add: combineProjects_def generateCombinationId_def Let_def repoIds_def [symmetric] e f)
  show ?thesis
    using a b c d e g by simp
qed

subsection \<open>Where quality scores come from\<close>

lemma standard_score_ignores_score:
  "calculateQualityScore lg t (item\<lparr>item_qualityScore := q\<rparr>) = calculateQualityScore lg t item"
  by (simp add: calculateQualityScore_def)

lemma enhanced_score_ignores_score:
  "calculateEnhancedQualityScore lg t (item\<lparr>item_qualityScore := q\<rparr>) ls cs
   = calculateEnhancedQualityScore lg t item ls cs"
  by (simp add: calculateEnhancedQualityScore_def)

lemma enrichRepository_ignores_score:
  "enrichRepository lg t (item\<lparr>item_qualityScore := q\<rparr>) = enrichRepository lg t item"
  by (simp add: enrichRepository_def standard_score_ignores_score split: option.splits)

lemma enhancedEnrichRepository_ignores_score:
  "enhancedEnrichRepository out t (item\<lparr>item_qualityScore := q\<rparr>) = enhancedEnrichRepository out t item"
  by (simp add: enhancedEnrichRepository_def enhanced_score_ignores_score Let_def split: option.splits)

lemma enumerate_map_snd: "enumerate n (map f xs) = map (\<lambda>(i, x). (i, f x)) (enumerate n xs)"
  by (induction xs arbitrary: n) auto

text \<open>
  C9, as amended. Search enrichment and enhanced enrichment recompute the quality score
  from the raw metadata: whatever \<^verbatim>\<open>qualityScore\<close> the input items carry, the output is the
  same, and the score attached is the one the scoring function computes. Per-repository
  combination analysis does not recompute: its \<^verbatim>\<open>codeQuality\<close> is the repository's own
  \<^verbatim>\<open>qualityScore\<close>, and 0 when it has none.
\<close>

theorem quality_score_recomputed:
  "enrichRepositories lg clock (map (\<lambda>item. item\<lparr>item_qualityScore := q item\<rparr>) items)
     = enrichRepositories lg clock items
   \<and> enhancedEnrichment out (map (\<lambda>item. item\<lparr>item_qualityScore := q item\<rparr>) items)
     = enhancedEnrichment out items
   \<and> (\<forall>r. enrichRepository lg t item = Some r \<longrightarrow>
          qualityScore r = Some (calculateQualityScore lg t item))
   \<and> (\<forall>r. enhancedEnrichRepository out t item = Some r \<longrightarrow>
          qualityScore r = Some (calculateEnhancedQualityScore (mathLog10 out) t item
             (getRepositoryLanguages out (item_full_name item))
             (getTopContributors out (item_full_name item))))
   \<and> codeQuality (analyzeRepository repo) = (case qualityScore repo of Some s \<Rightarrow> s | None \<Rightarrow> 0)"
proof -
  have a: "enrichRepositories lg clock (map (\<lambda>item. item\<lparr>item_qualityScore := q item\<rparr>) items)
     = enrichRepositories lg clock items"
    by (simp add: enrichRepositories_def enumerate_map_snd comp_def case_prod_unfold
        enrichRepository_ignores_score)
  have b: "enhancedEnrichment out (map (\<lambda>item. item\<lparr>item_qualityScore := q item\<rparr>) items)
     = enhancedEnrichment out items"
    by (simp add: enhancedEnrichment_def enumerate_map_snd comp_def case_prod_unfold
        enhancedEnrichRepository_ignores_score)
  have c: "\<forall>r. enrichRepository lg t item = Some r \<longrightarrow>
          qualityScore r = Some (calculateQualityScore lg t item)"
    by (auto simp: enrichRepository_def Let_def split: option.splits)
  have d: "\<forall>r. enhancedEnrichRepository out t item = Some r \<longrightarrow>
          qualityScore r = Some (calculateEnhancedQualityScore (mathLog10 out) t item
             (getRepositoryLanguages out (item_full_name item))
             (getTopContributors out (item_full_name item)))"
    by (auto simp: enhancedEnrichRepository_def Let_def split: option.splits)
  have e: "codeQuality (analyzeRepository repo) = (case qualityScore repo of Some s \<Rightarrow> s | None \<Rightarrow> 0)"
    by (simp add: analyzeRepository_def)
  show ?thesis
    using a b c d e by blast
qed

theorem quality_score_recomputed_witness:
  "(\<exists>r. enrichRepository correctlyRoundedLog10 1762041600000 (bareItem\<lparr>item_qualityScore := Some 99\<rparr>) = Some r
        \<and> qualityScore r = Some 5)
   \<and> (\<exists>r. enhancedEnrichRepository fullPageOutside 1762041600000
              (bareItem\<lparr>item_qualityScore := Some 99\<rparr>) = Some r
        \<and> qualityScore r = Some 30)"
proof -
  let ?item = "bareItem\<lparr>item_qualityScore := Some 99\<rparr>"
  note th = quality_score_recomputed [where lg = correctlyRoundedLog10 and clock = "\<lambda>i. 0"
      and q = "\<lambda>item. None" and items = "[]" and out = fullPageOutside
      and t = 1762041600000 and item = ?item and repo = shopRepo]
  have c: "\<forall>r. enrichRepository correctlyRoundedLog10 1762041600000 ?item = Some r \<longrightarrow>
          qualityScore r = Some (calculateQualityScore correctlyRoundedLog10 1762041600000 ?item)"
    by (rule conjunct1 [OF conjunct2 [OF conjunct2 [OF th]]])
  have m: "mathLog10 fullPageOutside = correctlyRoundedLog10"
    by (simp add: fullPageOutside_def)
  have d: "\<forall>r. enhancedEnrichRepository fullPageOutside 1762041600000 ?item = Some r \<longrightarrow>
          qualityScore r = Some (calculateEnhancedQualityScore correctlyRoundedLog10 1762041600000 ?item
             (getRepositoryLanguages fullPageOutside (item_full_name ?item))
             (getTopContributors fullPageOutside (item_full_name ?item)))"
    using conjunct1 [OF conjunct2 [OF conjunct2 [OF conjunct2 [OF th]]]] by (simp only: m)
  have s: "calculateQualityScore correctlyRoundedLog10 1762041600000 ?item = 5"
    by (simp add: standard_score_ignores_score bare_standard_score)
  have l: "getRepositoryLanguages fullPageOutside n = []"
    and k: "getTopContributors fullPageOutside n = []" for n
    by (simp_all add: getRepositoryLanguages_def getTopContributors_def fullPageOutside_def)
  have e: "calculateEnhancedQualityScore correctlyRoundedLog10 1762041600000 ?item
             (getRepositoryLanguages fullPageOutside (item_full_name ?item))
             (getTopContributors fullPageOutside (item_full_name ?item)) = 30"
    by (simp only: l k enhanced_score_ignores_score bare_enhanced_score)
  have o: "item_owner ?item \<noteq> None"
    by (simp add: bareItem_def)
  obtain r1 where x1: "enrichRepository correctlyRoundedLog10 1762041600000 ?item = Some r1"
    using o by (auto simp: enrichRepository_def split: option.splits)
  obtain r2 where x2: "enhancedEnrichRepository fullPageOutside 1762041600000 ?item = Some r2"
    using o by (auto simp: enhancedEnrichRepository_def Let_def split: option.splits)
  have "qualityScore r1 = Some 5"
    using c x1 s by simp
  moreover have "qualityScore r2 = Some 30"
    using d x2 e by simp
  ultimately show ?thesis
    using x1 x2 by blast
qed

text \<open>
  C9 as stated fails for combination analysis: two repositories that differ only in the
  \<^verbatim>\<open>qualityScore\<close> they carry, 40 and 90, get analyses with \<^verbatim>\<open>codeQuality\<close> 40 and 90.
\<close>

theorem analysis_copies_input_score:
  "codeQuality (analyzeRepository (shopRepo\<lparr>qualityScore := Some 40\<rparr>)) = 40
   \<and> codeQuality (analyzeRepository (shopRepo\<lparr>qualityScore := Some 90\<rparr>)) = 90
   \<and> analyzeRepository (shopRepo\<lparr>qualityScore := Some 40\<rparr>)
       \<noteq> analyzeRepository (shopRepo\<lparr>qualityScore := Some 90\<rparr>)"
proof -
  have a: "codeQuality (analyzeRepository (shopRepo\<lparr>qualityScore := Some 40\<rparr>)) = 40"
    by (simp add: analyzeRepository_def)
  have b: "codeQuality (analyzeRepository (shopRepo\<lparr>qualityScore := Some 90\<rparr>)) = 90"
    by (simp add: analyzeRepository_def)
  have "analyzeRepository (shopRepo\<lparr>qualityScore := Some 40\<rparr>)
       \<noteq> analyzeRepository (shopRepo\<lparr>qualityScore := Some 90\<rparr>)"
  proof
    assume "analyzeRepository (shopRepo\<lparr>qualityScore := Some 40\<rparr>)
            = analyzeRepository (shopRepo\<lparr>qualityScore := Some 90\<rparr>)"
    then have "codeQuality (analyzeRepository (shopRepo\<lparr>qualityScore := Some 40\<rparr>))
            = codeQuality (analyzeRepository (shopRepo\<lparr>qualityScore := Some 90\<rparr>))"
      by (rule arg_cong)
    then show False
      by (simp only: a b)
  qed
  with a b show ?thesis by blast
qed

end
